theory Spec2Isabelle
  imports Complex_Main "HOL-Library.Sublist" "HOL-Library.AList" "HOL-Library.Log_Nat"
begin

section \<open>Python values and the library operations the code relies on\<close>

text \<open>
  A Python \<open>str\<close> is modelled as a \<^typ>\<open>string\<close>; one \<^typ>\<open>char\<close> stands for one code
  point below 256. A \<open>float\<close> is modelled by the rational it denotes, or one of the three
  special values. A JSON-like value (what \<open>json.loads\<close> returns and what the document
  stores in \<open>extracted_json\<close>) is a \<open>pyval\<close>; a \<open>dict\<close> is an association list looked
  up from the front.
\<close>

datatype pyfloat = FNaN | FPosInf | FNegInf | FFin rat

datatype pyval =
    PNone
  | PBool bool
  | PInt int
  | PFloat pyfloat
  | PStr string
  | PList "pyval list"
  | PDict "(string \<times> pyval) list"

datatype py_error = TypeError | ValueError | OverflowError

text \<open>
  The parts of the Python library that are not modelled here are parameters: parsing a
  string as an integer (\<open>int(s)\<close>) and as a float (\<open>float(s)\<close>), where \<open>None\<close> stands
  for \<open>ValueError\<close>; the text \<open>str(v)\<close> of a float, list or dict; Unicode NFKD
  decomposition and the test for combining marks (\<open>unicodedata\<close>); the similarity
  ratio of \<open>difflib.SequenceMatcher\<close>, as the rational \<open>2 * M / T\<close> it computes; and
  the constructor \<open>Decimal(s)\<close>, where \<open>None\<close> stands for \<open>InvalidOperation\<close>.
\<close>

text \<open>
  A \<open>decimal.Decimal\<close>: sign (true when negative), coefficient and exponent of a finite
  number, an infinity with its sign, a quiet or a signalling NaN.
\<close>

datatype decimal = DFin bool nat int | DInf bool | DNaN | DSNaN

record pylib =
  int_of_str :: "string \<Rightarrow> int option"
  float_of_str :: "string \<Rightarrow> pyfloat option"
  repr_other :: "pyval \<Rightarrow> string"
  nfkd :: "string \<Rightarrow> string"
  combining :: "char \<Rightarrow> bool"
  seq_ratio :: "string \<Rightarrow> string \<Rightarrow> rat"
  decimal_of_str :: "string \<Rightarrow> decimal option"

subsection \<open>Strings\<close>

definition py_isspace :: "char \<Rightarrow> bool" where
  "py_isspace c = ((of_char c :: nat) \<in> {9, 10, 11, 12, 13, 28, 29, 30, 31, 32, 133, 160})"

definition lower_char :: "char \<Rightarrow> char" where
  "lower_char c =
     (let n = (of_char c :: nat)
      in if (65 \<le> n \<and> n \<le> 90) \<or> (192 \<le> n \<and> n \<le> 222 \<and> n \<noteq> 215)
         then char_of (n + 32) else c)"

definition py_lower :: "string \<Rightarrow> string" where
  "py_lower s = map lower_char s"

definition py_lstrip :: "string \<Rightarrow> string" where
  "py_lstrip s = dropWhile py_isspace s"

fun py_rstrip :: "string \<Rightarrow> string" where
  "py_rstrip [] = []"
| "py_rstrip (c # cs) =
     (let r = py_rstrip cs in if r = [] \<and> py_isspace c then [] else c # r)"

definition py_strip :: "string \<Rightarrow> string" where
  "py_strip s = py_rstrip (py_lstrip s)"

text \<open>\<open>s.split()\<close>: the maximal runs of non-whitespace characters, in order.\<close>

fun split_ws :: "string \<Rightarrow> string \<Rightarrow> string list" where
  "split_ws cur [] = (if cur = [] then [] else [cur])"
| "split_ws cur (c # cs) =
     (if py_isspace c
      then (if cur = [] then split_ws [] cs else cur # split_ws [] cs)
      else split_ws (cur @ [c]) cs)"

definition py_split :: "string \<Rightarrow> string list" where
  "py_split s = split_ws [] s"

text \<open>\<open>" ".join(ws)\<close>\<close>

fun join_sp :: "string list \<Rightarrow> string" where
  "join_sp [] = []"
| "join_sp [w] = w"
| "join_sp (w # v # ws) = w @ '' '' @ join_sp (v # ws)"

text \<open>\<open>str(i)\<close> for an integer: decimal digits, with a minus sign when negative.\<close>

definition digit_char :: "nat \<Rightarrow> char" where
  "digit_char d = char_of (48 + d)"

function digits_of_nat :: "nat \<Rightarrow> string" where
  "digits_of_nat n = (if n < 10 then [digit_char n] else digits_of_nat (n div 10) @ [digit_char (n mod 10)])"
  by pat_completeness auto
termination
  by (relation "measure id") auto

declare digits_of_nat.simps [simp del]

definition str_of_int :: "int \<Rightarrow> string" where
  "str_of_int i = (if i < 0 then CHR ''-'' # digits_of_nat (nat (- i)) else digits_of_nat (nat i))"

text \<open>\<open>str(v)\<close>\<close>

definition py_str :: "pylib \<Rightarrow> pyval \<Rightarrow> string" where
  "py_str L v =
     (case v of
        PStr s \<Rightarrow> s
      | PNone \<Rightarrow> ''None''
      | PBool b \<Rightarrow> (if b then ''True'' else ''False'')
      | PInt i \<Rightarrow> str_of_int i
      | _ \<Rightarrow> repr_other L v)"

subsection \<open>Numbers\<close>

text \<open>
  \<open>float(n)\<close> for an integer \<open>n\<close>: exact below \<open>2^53\<close>, otherwise rounded to 53
  significant bits (ties to even); \<open>OverflowError\<close> when the rounded value does not fit
  a double.
\<close>

definition float_of_int :: "int \<Rightarrow> py_error + pyfloat" where
  "float_of_int n =
     (let m = nat \<bar>n\<bar>
      in if m < 2 ^ 53 then Inr (FFin (of_int n))
         else
           let e = floorlog 2 m - 53;
               q = m div 2 ^ e;
               r = m mod 2 ^ e;
               half = 2 ^ (e - 1);
               q' = (if r > half \<or> (r = half \<and> odd q) then q + 1 else q);
               v = q' * 2 ^ e
           in if v \<ge> 2 ^ 1024 then Inl OverflowError
              else Inr (FFin (if n < 0 then - of_nat v else of_nat v)))"

text \<open>\<open>float(v)\<close>\<close>

definition py_float :: "pylib \<Rightarrow> pyval \<Rightarrow> py_error + pyfloat" where
  "py_float L v =
     (case v of
        PFloat f \<Rightarrow> Inr f
      | PInt i \<Rightarrow> float_of_int i
      | PBool b \<Rightarrow> Inr (FFin (if b then 1 else 0))
      | PStr s \<Rightarrow> (case float_of_str L s of None \<Rightarrow> Inl ValueError | Some f \<Rightarrow> Inr f)
      | _ \<Rightarrow> Inl TypeError)"

text \<open>\<open>int(v)\<close>: a float is truncated towards zero; NaN and the infinities raise.\<close>

definition py_int :: "pylib \<Rightarrow> pyval \<Rightarrow> py_error + int" where
  "py_int L v =
     (case v of
        PInt i \<Rightarrow> Inr i
      | PBool b \<Rightarrow> Inr (if b then 1 else 0)
      | PFloat f \<Rightarrow>
          (case f of
             FNaN \<Rightarrow> Inl ValueError
           | FPosInf \<Rightarrow> Inl OverflowError
           | FNegInf \<Rightarrow> Inl OverflowError
           | FFin q \<Rightarrow> Inr (if q \<ge> 0 then \<lfloor>q\<rfloor> else \<lceil>q\<rceil>))
      | PStr s \<Rightarrow> (case int_of_str L s of None \<Rightarrow> Inl ValueError | Some i \<Rightarrow> Inr i)
      | _ \<Rightarrow> Inl TypeError)"

text \<open>Comparison of a float with an integer constant: every comparison with NaN is false.\<close>

definition float_lt :: "pyfloat \<Rightarrow> rat \<Rightarrow> bool" where
  "float_lt f c = (case f of FNaN \<Rightarrow> False | FPosInf \<Rightarrow> False | FNegInf \<Rightarrow> True | FFin q \<Rightarrow> q < c)"

definition float_gt :: "pyfloat \<Rightarrow> rat \<Rightarrow> bool" where
  "float_gt f c = (case f of FNaN \<Rightarrow> False | FPosInf \<Rightarrow> True | FNegInf \<Rightarrow> False | FFin q \<Rightarrow> q > c)"

subsection \<open>Dictionaries and lists\<close>

text \<open>\<open>d.get(k)\<close>: the value stored under \<open>k\<close>, \<open>None\<close> when the key is missing.\<close>

definition dict_get :: "(string \<times> pyval) list \<Rightarrow> string \<Rightarrow> pyval" where
  "dict_get d k = (case map_of d k of None \<Rightarrow> PNone | Some v \<Rightarrow> v)"

text \<open>\<open>v if isinstance(v, dict) else {}\<close> and \<open>v if isinstance(v, list) else []\<close>\<close>

definition as_dict :: "pyval \<Rightarrow> (string \<times> pyval) list" where
  "as_dict v = (case v of PDict d \<Rightarrow> d | _ \<Rightarrow> [])"

definition as_list :: "pyval \<Rightarrow> pyval list" where
  "as_list v = (case v of PList xs \<Rightarrow> xs | _ \<Rightarrow> [])"

section \<open>ai\_extraction.py: the payload normalizer\<close>

definition DOC_TYPE_CHOICES :: "string set" where
  "DOC_TYPE_CHOICES = {''curriculo'', ''contrato'', ''nota_fiscal'', ''boleto'', ''fatura'',
     ''recibo'', ''comprovante'', ''outro''}"

definition SENIORITY_CHOICES :: "string set" where
  "SENIORITY_CHOICES = {''junior'', ''pleno'', ''senior'', ''lead'', ''unknown''}"

definition SKILL_LEVEL_CHOICES :: "string set" where
  "SKILL_LEVEL_CHOICES = {''unknown'', ''basic'', ''intermediate'', ''advanced''}"

text \<open>
  \<open>_clean_text(value, max_len)\<close>; \<open>max_len = 0\<close> switches truncation off, as the
  source's \<open>if max_len and ...\<close> does.
\<close>

definition clean_text :: "pylib \<Rightarrow> nat \<Rightarrow> pyval \<Rightarrow> string" where
  "clean_text L max_len v =
     (if v = PNone then []
      else
        let cleaned = py_strip (join_sp (py_split (py_str L v)))
        in if max_len \<noteq> 0 \<and> length cleaned > max_len
           then py_rstrip (take max_len cleaned)
           else cleaned)"

definition clean_optional_text :: "pylib \<Rightarrow> nat \<Rightarrow> pyval \<Rightarrow> pyval" where
  "clean_optional_text L max_len v =
     (let cleaned = clean_text L max_len v in if cleaned = [] then PNone else PStr cleaned)"

text \<open>
  \<open>_clean_int\<close>: \<open>TypeError\<close> and \<open>ValueError\<close> of \<open>int(value)\<close> are caught, any other
  exception propagates.
\<close>

definition clean_int :: "pylib \<Rightarrow> pyval \<Rightarrow> int \<Rightarrow> int \<Rightarrow> py_error + int option" where
  "clean_int L v min_value max_value =
     (if v = PNone then Inr None
      else case py_int L v of
          Inl TypeError \<Rightarrow> Inr None
        | Inl ValueError \<Rightarrow> Inr None
        | Inl e \<Rightarrow> Inl e
        | Inr parsed \<Rightarrow>
            if parsed < min_value \<or> parsed > max_value then Inr None else Inr (Some parsed))"

definition clean_float :: "pylib \<Rightarrow> pyval \<Rightarrow> py_error + pyfloat" where
  "clean_float L v =
     (case py_float L v of
        Inl TypeError \<Rightarrow> Inr (FFin 0)
      | Inl ValueError \<Rightarrow> Inr (FFin 0)
      | Inl e \<Rightarrow> Inl e
      | Inr parsed \<Rightarrow>
          if float_lt parsed 0 then Inr (FFin 0)
          else if float_gt parsed 1 then Inr (FFin 1)
          else Inr parsed)"

text \<open>The loop of \<open>_clean_list\<close>, with its two accumulators.\<close>

fun clean_list_loop ::
  "pylib \<Rightarrow> nat \<Rightarrow> nat \<Rightarrow> pyval list \<Rightarrow> string list \<Rightarrow> string set \<Rightarrow> string list" where
  "clean_list_loop L max_items max_len [] cleaned seen = cleaned"
| "clean_list_loop L max_items max_len (raw # rest) cleaned seen =
     (let text = clean_text L max_len raw
      in if text = [] then clean_list_loop L max_items max_len rest cleaned seen
         else
           let lowered = py_lower text
           in if lowered \<in> seen then clean_list_loop L max_items max_len rest cleaned seen
              else
                let cleaned' = cleaned @ [text]
                in if length cleaned' \<ge> max_items then cleaned'
                   else clean_list_loop L max_items max_len rest cleaned' (insert lowered seen))"

definition clean_list :: "pylib \<Rightarrow> nat \<Rightarrow> nat \<Rightarrow> pyval \<Rightarrow> string list" where
  "clean_list L max_items max_len values =
     (case values of
        PList xs \<Rightarrow> clean_list_loop L max_items max_len xs [] {}
      | _ \<Rightarrow> [])"

definition normalize_skill :: "pylib \<Rightarrow> pyval \<Rightarrow> pyval option" where
  "normalize_skill L raw =
     (case raw of
        PDict d \<Rightarrow>
          (let name = clean_text L 120 (dict_get d ''name'')
           in if name = [] then None
              else
                let level0 = py_lower (clean_text L 20 (dict_get d ''level''));
                    level1 = (if level0 = [] then ''unknown'' else level0);
                    level = (if level1 \<notin> SKILL_LEVEL_CHOICES then ''unknown'' else level1);
                    evidence = clean_text L 220 (dict_get d ''evidence'')
                in if evidence = [] then None
                   else Some (PDict [(''name'', PStr name), (''level'', PStr level),
                                     (''evidence'', PStr evidence)]))
      | _ \<Rightarrow> None)"

definition normalize_education :: "pylib \<Rightarrow> pyval \<Rightarrow> pyval option" where
  "normalize_education L raw =
     (case raw of
        PDict d \<Rightarrow>
          (let degree = clean_optional_text L 160 (dict_get d ''degree'');
               institution = clean_optional_text L 160 (dict_get d ''institution'');
               evidence = clean_text L 220 (dict_get d ''evidence'')
           in if evidence = [] then None
              else Some (PDict [(''degree'', degree), (''institution'', institution),
                                (''evidence'', PStr evidence)]))
      | _ \<Rightarrow> None)"

definition normalize_keyword_evidence :: "pylib \<Rightarrow> pyval \<Rightarrow> pyval option" where
  "normalize_keyword_evidence L raw =
     (case raw of
        PDict d \<Rightarrow>
          (let term = clean_text L 120 (dict_get d ''term'');
               evidence = clean_text L 220 (dict_get d ''evidence'')
           in if term = [] \<or> evidence = [] then None
              else Some (PDict [(''term'', PStr term), (''evidence'', PStr evidence)]))
      | _ \<Rightarrow> None)"

text \<open>
  The three loops of \<open>normalize_ai_payload\<close> over composite entries: normalize the item,
  append it when it is kept, stop as soon as the result holds \<open>cap\<close> entries.
\<close>

fun collect_items :: "nat \<Rightarrow> (pyval \<Rightarrow> pyval option) \<Rightarrow> pyval list \<Rightarrow> pyval list \<Rightarrow> pyval list" where
  "collect_items cap f [] acc = acc"
| "collect_items cap f (item # rest) acc =
     (let acc' = (case f item of Some n \<Rightarrow> acc @ [n] | None \<Rightarrow> acc)
      in if length acc' \<ge> cap then acc' else collect_items cap f rest acc')"

definition opt_int :: "int option \<Rightarrow> pyval" where
  "opt_int v = (case v of None \<Rightarrow> PNone | Some i \<Rightarrow> PInt i)"

definition str_list :: "string list \<Rightarrow> pyval" where
  "str_list xs = PList (map PStr xs)"

definition normalize_ai_payload :: "pylib \<Rightarrow> pyval \<Rightarrow> py_error + pyval" where
  "normalize_ai_payload L payload0 =
     (let payload = as_dict payload0;
          person_raw = as_dict (dict_get payload ''person'');
          exp_raw = as_dict (dict_get payload ''experience'');
          confidence_raw = as_dict (dict_get payload ''confidence'');
          doc_type0 = py_lower (clean_text L 40 (dict_get payload ''doc_type''));
          doc_type1 = (if doc_type0 = [] then ''outro'' else doc_type0);
          doc_type = (if doc_type1 \<notin> DOC_TYPE_CHOICES then ''outro'' else doc_type1);
          seniority0 = py_lower (clean_text L 20 (dict_get exp_raw ''seniority''));
          seniority1 = (if seniority0 = [] then ''unknown'' else seniority0);
          seniority = (if seniority1 \<notin> SENIORITY_CHOICES then ''unknown'' else seniority1);
          skills = collect_items 30 (normalize_skill L) (as_list (dict_get payload ''skills'')) [];
          education =
            collect_items 20 (normalize_education L) (as_list (dict_get payload ''education'')) [];
          keywords_evidence =
            collect_items 40 (normalize_keyword_evidence L)
              (as_list (dict_get payload ''keywords_evidence'')) []
      in case clean_int L (dict_get person_raw ''age_estimate_years'') 0 120 of
           Inl e \<Rightarrow> Inl e
         | Inr age \<Rightarrow>
        (case clean_int L (dict_get exp_raw ''years_estimate'') 0 60 of
           Inl e \<Rightarrow> Inl e
         | Inr years \<Rightarrow>
        (case clean_float L (dict_get confidence_raw ''overall'') of
           Inl e \<Rightarrow> Inl e
         | Inr overall \<Rightarrow>
             Inr (PDict
               [(''doc_type'', PStr doc_type),
                (''person'', PDict
                  [(''name'', clean_optional_text L 160 (dict_get person_raw ''name'')),
                   (''emails'', str_list (clean_list L 10 120 (dict_get person_raw ''emails''))),
                   (''phones'', str_list (clean_list L 10 32 (dict_get person_raw ''phones''))),
                   (''location'', clean_optional_text L 160 (dict_get person_raw ''location'')),
                   (''age_estimate_years'', opt_int age),
                   (''age_evidence'',
                      clean_optional_text L 220 (dict_get person_raw ''age_evidence''))]),
                (''experience'', PDict
                  [(''years_estimate'', opt_int years),
                   (''years_evidence'',
                      clean_optional_text L 220 (dict_get exp_raw ''years_evidence'')),
                   (''seniority'', PStr seniority),
                   (''roles'', str_list (clean_list L 20 120 (dict_get exp_raw ''roles''))),
                   (''companies'', str_list (clean_list L 20 120 (dict_get exp_raw ''companies'')))]),
                (''skills'', PList skills),
                (''education'', PList education),
                (''keywords_evidence'', PList keywords_evidence),
                (''confidence'', PDict [(''overall'', PFloat overall)])]))))"


section \<open>ai\_filters.py: search blob and semantic filters\<close>

text \<open>
  The attributes of a document that the filters read. The text attributes are text
  fields of the model; the two heuristic year attributes are nullable integers, kept
  as \<open>pyval\<close> because \<open>_safe_int\<close> accepts any value.
\<close>

record document =
  extracted_json :: pyval
  text_content_norm :: string
  text_content :: string
  extracted_text :: string
  extracted_age_years :: pyval
  extracted_experience_years :: pyval

text \<open>\<open>_safe_int\<close> has the body of \<open>_clean_int\<close>.\<close>

definition safe_int :: "pylib \<Rightarrow> pyval \<Rightarrow> int \<Rightarrow> int \<Rightarrow> py_error + int option" where
  "safe_int L v min_value max_value =
     (if v = PNone then Inr None
      else case py_int L v of
          Inl TypeError \<Rightarrow> Inr None
        | Inl ValueError \<Rightarrow> Inr None
        | Inl e \<Rightarrow> Inl e
        | Inr parsed \<Rightarrow>
            if parsed < min_value \<or> parsed > max_value then Inr None else Inr (Some parsed))"

text \<open>\<open>get_ai_payload\<close> on a document object (the attribute \<open>extracted_json\<close>).\<close>

definition get_ai_payload :: "document \<Rightarrow> (string \<times> pyval) list" where
  "get_ai_payload doc = as_dict (dict_get (as_dict (extracted_json doc)) ''ai'')"

definition nonempty :: "string list \<Rightarrow> string list" where
  "nonempty xs = filter (\<lambda>s. s \<noteq> []) xs"

text \<open>
  The generator \<open>_iter_search_chunks\<close>, as the list of the chunks it yields. The
  \<open>_clean_text\<close> of this module has the body of the one in ai\_extraction.py.
\<close>

definition iter_search_chunks :: "pylib \<Rightarrow> (string \<times> pyval) list \<Rightarrow> string list" where
  "iter_search_chunks L ai_payload =
     (if ai_payload = [] then []
      else
        let person = as_dict (dict_get ai_payload ''person'');
            experience = as_dict (dict_get ai_payload ''experience'');
            years_estimate = dict_get experience ''years_estimate''
        in nonempty [clean_text L 80 (dict_get ai_payload ''doc_type'')]
           @ nonempty (map (\<lambda>key. clean_text L 220 (dict_get person key))
                         [''name'', ''location'', ''age_evidence''])
           @ concat (map (\<lambda>field. nonempty (map (clean_text L 120) (as_list (dict_get person field))))
                         [''emails'', ''phones''])
           @ nonempty (map (\<lambda>key. clean_text L 220 (dict_get experience key))
                         [''seniority'', ''years_evidence''])
           @ (if years_estimate \<noteq> PNone then [py_str L years_estimate] else [])
           @ concat (map (\<lambda>field. nonempty (map (clean_text L 120) (as_list (dict_get experience field))))
                         [''roles'', ''companies''])
           @ concat (map (\<lambda>skill. nonempty (map (\<lambda>key. clean_text L 220 (dict_get (as_dict skill) key))
                                                 [''name'', ''level'', ''evidence'']))
                         (as_list (dict_get ai_payload ''skills'')))
           @ concat (map (\<lambda>entry. nonempty (map (\<lambda>key. clean_text L 220 (dict_get (as_dict entry) key))
                                                 [''degree'', ''institution'', ''evidence'']))
                         (as_list (dict_get ai_payload ''education'')))
           @ concat (map (\<lambda>entry. nonempty (map (\<lambda>key. clean_text L 220 (dict_get (as_dict entry) key))
                                                 [''term'', ''evidence'']))
                         (as_list (dict_get ai_payload ''keywords_evidence''))))"

text \<open>
  The loop of \<open>build_ai_search_blob\<close>. \<open>nfm\<close> stands for \<open>_normalize_for_match\<close> of
  services.py, which the filters import.
\<close>

fun blob_loop :: "(string \<Rightarrow> string) \<Rightarrow> string list \<Rightarrow> string list \<Rightarrow> string set \<Rightarrow> string list" where
  "blob_loop nfm [] chunks seen = chunks"
| "blob_loop nfm (chunk # rest) chunks seen =
     (let normalized = nfm chunk
      in if normalized = [] \<or> normalized \<in> seen then blob_loop nfm rest chunks seen
         else blob_loop nfm rest (chunks @ [normalized]) (insert normalized seen))"

definition build_ai_search_blob :: "pylib \<Rightarrow> (string \<Rightarrow> string) \<Rightarrow> (string \<times> pyval) list \<Rightarrow> string" where
  "build_ai_search_blob L nfm ai_payload =
     join_sp (blob_loop nfm (iter_search_chunks L ai_payload) [] {})"

definition build_document_blob :: "pylib \<Rightarrow> (string \<Rightarrow> string) \<Rightarrow> document \<Rightarrow> string" where
  "build_document_blob L nfm doc =
     (let ai_blob = build_ai_search_blob L nfm (get_ai_payload doc);
          text_blob0 = clean_text L 0 (PStr (text_content_norm doc));
          text_blob =
            (if text_blob0 = []
             then nfm (if text_content doc \<noteq> [] then text_content doc else extracted_text doc)
             else text_blob0)
      in if ai_blob \<noteq> [] \<and> text_blob \<noteq> [] then ai_blob @ '' '' @ text_blob
         else if ai_blob \<noteq> [] then ai_blob else text_blob)"

text \<open>\<open>term in blob\<close> is the substring test \<^const>\<open>sublist\<close>.\<close>

definition document_matches_terms ::
  "pylib \<Rightarrow> (string \<Rightarrow> string) \<Rightarrow> document \<Rightarrow> string list \<Rightarrow> string \<Rightarrow> bool" where
  "document_matches_terms L nfm doc terms mode =
     (if terms = [] then True
      else
        let blob = build_document_blob L nfm doc
        in if blob = [] then False
           else if mode = ''any'' then list_ex (\<lambda>term. sublist term blob) terms
           else list_all (\<lambda>term. sublist term blob) terms)"

definition document_matches_excludes ::
  "pylib \<Rightarrow> (string \<Rightarrow> string) \<Rightarrow> document \<Rightarrow> string list \<Rightarrow> bool" where
  "document_matches_excludes L nfm doc exclude_terms =
     (if exclude_terms = [] then False
      else
        let blob = build_document_blob L nfm doc
        in if blob = [] then False
           else list_ex (\<lambda>term. sublist term blob) exclude_terms)"

definition resolve_experience_years :: "pylib \<Rightarrow> document \<Rightarrow> py_error + int option" where
  "resolve_experience_years L doc =
     (let experience = as_dict (dict_get (get_ai_payload doc) ''experience'')
      in case safe_int L (dict_get experience ''years_estimate'') 0 60 of
           Inl e \<Rightarrow> Inl e
         | Inr (Some ai_value) \<Rightarrow> Inr (Some ai_value)
         | Inr None \<Rightarrow> safe_int L (extracted_experience_years doc) 0 60)"

definition resolve_age_years :: "pylib \<Rightarrow> document \<Rightarrow> py_error + int option" where
  "resolve_age_years L doc =
     (let person = as_dict (dict_get (get_ai_payload doc) ''person'')
      in case safe_int L (dict_get person ''age_estimate_years'') 0 120 of
           Inl e \<Rightarrow> Inl e
         | Inr (Some ai_value) \<Rightarrow> Inr (Some ai_value)
         | Inr None \<Rightarrow> safe_int L (extracted_age_years doc) 0 120)"

text \<open>
  \<open>document_passes_ranges\<close>: both values are resolved first, then the four blocks run
  in the source's order, each able to return \<open>False\<close> early.
\<close>

definition document_passes_ranges ::
  "pylib \<Rightarrow> document \<Rightarrow> int option \<Rightarrow> int option \<Rightarrow> int option \<Rightarrow> int option \<Rightarrow> bool
     \<Rightarrow> py_error + bool" where
  "document_passes_ranges L doc experience_min_years experience_max_years age_min_years
       age_max_years exclude_unknowns =
     (case resolve_experience_years L doc of
        Inl e \<Rightarrow> Inl e
      | Inr experience_value \<Rightarrow>
     (case resolve_age_years L doc of
        Inl e \<Rightarrow> Inl e
      | Inr age_value \<Rightarrow>
          Inr (
            if (case experience_min_years of None \<Rightarrow> False
                | Some b \<Rightarrow> (case experience_value of None \<Rightarrow> exclude_unknowns | Some v \<Rightarrow> v < b))
            then False
            else if (case experience_max_years of None \<Rightarrow> False
                | Some b \<Rightarrow> (case experience_value of None \<Rightarrow> exclude_unknowns | Some v \<Rightarrow> v > b))
            then False
            else if (case age_min_years of None \<Rightarrow> False
                | Some b \<Rightarrow> (case age_value of None \<Rightarrow> exclude_unknowns | Some v \<Rightarrow> v < b))
            then False
            else if (case age_max_years of None \<Rightarrow> False
                | Some b \<Rightarrow> (case age_value of None \<Rightarrow> exclude_unknowns | Some v \<Rightarrow> v > b))
            then False
            else True)))"

definition document_passes_semantic_filters ::
  "pylib \<Rightarrow> (string \<Rightarrow> string) \<Rightarrow> document \<Rightarrow> string list \<Rightarrow> string \<Rightarrow> string list
     \<Rightarrow> int option \<Rightarrow> int option \<Rightarrow> int option \<Rightarrow> int option \<Rightarrow> bool \<Rightarrow> py_error + bool" where
  "document_passes_semantic_filters L nfm doc terms mode exclude_terms experience_min_years
       experience_max_years age_min_years age_max_years exclude_unknowns =
     (if \<not> document_matches_terms L nfm doc terms mode then Inr False
      else if document_matches_excludes L nfm doc exclude_terms then Inr False
      else case document_passes_ranges L doc experience_min_years experience_max_years
                  age_min_years age_max_years exclude_unknowns of
             Inl e \<Rightarrow> Inl e
           | Inr ok \<Rightarrow> (if \<not> ok then Inr False else Inr True))"


section \<open>processing.py: the decimal money parser\<close>

text \<open>
  \<open>d.quantize(Decimal("0.01"))\<close> in the default context (28 digits, ties to even):
  a quiet NaN comes back as it is; a signalling NaN, an infinity and a result of more
  than 28 digits raise \<open>InvalidOperation\<close> (\<open>None\<close>); any other number is rescaled to
  exponent \<open>-2\<close>.
\<close>

definition quantize_cents :: "decimal \<Rightarrow> decimal option" where
  "quantize_cents d =
     (case d of
        DNaN \<Rightarrow> Some DNaN
      | DSNaN \<Rightarrow> None
      | DInf s \<Rightarrow> None
      | DFin s c e \<Rightarrow>
          (let c' =
             (if e \<ge> - 2 then c * 10 ^ nat (e + 2)
              else
                let k = nat (- 2 - e);
                    q = c div 10 ^ k;
                    r = c mod 10 ^ k;
                    half = 5 * 10 ^ (k - 1)
                in if r > half \<or> (r = half \<and> odd q) then q + 1 else q)
           in if c' \<ge> 10 ^ 28 then None else Some (DFin s c' (- 2))))"

text \<open>
  The argument of \<open>_parse_decimal\<close> is a value of the heuristic payload or an object
  that is already a \<open>Decimal\<close>.
\<close>

datatype field_value = Dec decimal | Json pyval

definition parse_decimal :: "pylib \<Rightarrow> field_value \<Rightarrow> decimal option" where
  "parse_decimal L fv =
     (case fv of
        Dec d \<Rightarrow> Some d
      | Json v \<Rightarrow>
          if v = PNone \<or> v = PStr [] then None
          else if (case v of PInt i \<Rightarrow> True | PBool b \<Rightarrow> True | PFloat f \<Rightarrow> True | _ \<Rightarrow> False)
          then (case decimal_of_str L (py_str L v) of
                  None \<Rightarrow> None
                | Some d \<Rightarrow> quantize_cents d)
          else
            let raw = py_strip (py_str L v)
            in if raw = [] then None
               else
                 let raw' =
                   (if CHR '','' \<in> set raw \<and> CHR ''.'' \<in> set raw
                    then map (\<lambda>c. if c = CHR '','' then CHR ''.'' else c)
                           (filter (\<lambda>c. c \<noteq> CHR ''.'') raw)
                    else if CHR '','' \<in> set raw \<and> CHR ''.'' \<notin> set raw
                    then map (\<lambda>c. if c = CHR '','' then CHR ''.'' else c) raw
                    else raw)
                 in (case decimal_of_str L raw' of
                       None \<Rightarrow> None
                     | Some d \<Rightarrow> quantize_cents d))"

text \<open>What the claim calls a decimal quantized to 2 places: a finite number of exponent \<open>-2\<close>.\<close>

definition two_places :: "decimal \<Rightarrow> bool" where
  "two_places d = (case d of DFin s c e \<Rightarrow> e = - 2 | _ \<Rightarrow> False)"

section \<open>intent.py: the intent resolver\<close>

record ResolvedIntent =
  kind :: string
  builtin_key :: string
  inferred_type :: string
  anchors :: "string list"
  match_strategy :: string
  confidence :: rat

text \<open>
  The two tables of intent\_catalog.py, which intent.py imports: the items of each
  dictionary in insertion order.
\<close>

record catalog =
  SYNONYM_MAP :: "(string \<times> string) list"
  TYPE_BY_BUILTIN :: "(string \<times> string) list"

definition FUZZY_THRESHOLD :: rat where
  "FUZZY_THRESHOLD = 84 / 100"

text \<open>\<open>re.sub(r"\s+", " ", s)\<close>; the flag says that the previous character was whitespace.\<close>

fun collapse_ws :: "bool \<Rightarrow> string \<Rightarrow> string" where
  "collapse_ws prev [] = []"
| "collapse_ws prev (c # cs) =
     (if py_isspace c
      then (if prev then collapse_ws True cs else CHR '' '' # collapse_ws True cs)
      else c # collapse_ws False cs)"

definition normalize_label :: "pylib \<Rightarrow> string \<Rightarrow> string" where
  "normalize_label L v =
     (let raw = py_lower (py_strip v);
          normalized = nfkd L raw;
          stripped = filter (\<lambda>ch. \<not> combining L ch) normalized
      in collapse_ws False stripped)"

definition infer_type :: "catalog \<Rightarrow> string \<Rightarrow> string \<Rightarrow> string" where
  "infer_type C normalized bkey =
     (if bkey \<noteq> [] then (case map_of (TYPE_BY_BUILTIN C) bkey of None \<Rightarrow> ''text'' | Some t \<Rightarrow> t)
      else if sublist ''cnpj'' normalized then ''cnpj''
      else if sublist ''cpf'' normalized then ''cpf''
      else if sublist ''barra'' normalized \<or> sublist ''linha'' normalized
              \<or> sublist ''barcode'' normalized then ''barcode''
      else if sublist ''vencimento'' normalized \<or> sublist ''data'' normalized then ''date''
      else if list_ex (\<lambda>term. sublist term normalized)
                [''valor'', ''total'', ''juros'', ''multa'', ''preco''] then ''money''
      else if sublist ''cep'' normalized then ''postal''
      else if list_ex (\<lambda>term. sublist term normalized)
                [''endereco'', ''logradouro'', ''rua'', ''avenida''] then ''address''
      else if list_ex (\<lambda>term. sublist term normalized)
                [''numero'', ''n '', ''no '', ''matricula'', ''cliente''] then ''id''
      else ''text'')"

definition build_builtin_candidates ::
  "pylib \<Rightarrow> catalog \<Rightarrow> (string \<times> string) list \<Rightarrow> (string \<times> string \<times> string) list" where
  "build_builtin_candidates L C builtin_fields =
     concat (map (\<lambda>(key, label).
         (let key_norm = normalize_label L key;
              label_norm = normalize_label L label
          in (if key_norm \<noteq> [] then [(key_norm, key, ''exact'')] else [])
             @ (if label_norm \<noteq> [] then [(label_norm, key, ''label'')] else [])))
       builtin_fields)
     @ map (\<lambda>(synonym, key). (normalize_label L synonym, key, ''synonym'')) (SYNONYM_MAP C)"

text \<open>
  The dictionary comprehension \<open>{candidate: (key, strategy) for ...}\<close>: the items are
  stored one after the other, a later item replacing the value of an equal key.
\<close>

definition exact_lookup :: "(string \<times> string \<times> string) list \<Rightarrow> (string \<times> string \<times> string) list" where
  "exact_lookup candidates = foldl (\<lambda>d (candidate, ks). AList.update candidate ks d) [] candidates"

text \<open>The loop that keeps the best score, with its three variables.\<close>

fun fuzzy_loop ::
  "pylib \<Rightarrow> string \<Rightarrow> (string \<times> string \<times> string) list \<Rightarrow> string \<times> rat \<times> string
     \<Rightarrow> string \<times> rat \<times> string" where
  "fuzzy_loop L normalized [] best = best"
| "fuzzy_loop L normalized ((candidate, key, strategy) # rest) (best_key, best_score, best_strategy) =
     (let score = seq_ratio L normalized candidate
      in if score > best_score then fuzzy_loop L normalized rest (key, score, strategy)
         else fuzzy_loop L normalized rest (best_key, best_score, best_strategy))"

text \<open>The loop at the end of \<open>_build_anchors\<close> that removes repeated anchors.\<close>

fun unique_anchors :: "pylib \<Rightarrow> string list \<Rightarrow> string set \<Rightarrow> string list" where
  "unique_anchors L [] seen = []"
| "unique_anchors L (anchor # rest) seen =
     (let norm = normalize_label L anchor
      in if norm = [] \<or> norm \<in> seen then unique_anchors L rest seen
         else anchor # unique_anchors L rest (insert norm seen))"

definition build_anchors :: "pylib \<Rightarrow> catalog \<Rightarrow> string \<Rightarrow> string \<Rightarrow> (string \<times> string) list \<Rightarrow> string list" where
  "build_anchors L C label bkey builtin_fields =
     (let label_value = py_strip label;
          builtin_label = (case find (\<lambda>(key, field_label). key = bkey) builtin_fields of
                             None \<Rightarrow> [] | Some (key, field_label) \<Rightarrow> field_label);
          anchors0 = (if label_value \<noteq> [] then [label_value] else [])
                     @ (if builtin_label \<noteq> [] then [builtin_label] else [])
                     @ map fst (filter (\<lambda>(synonym, key). key = bkey) (SYNONYM_MAP C))
      in unique_anchors L anchors0 {})"

definition resolve_intent_with_llm :: "string \<Rightarrow> ResolvedIntent option" where
  "resolve_intent_with_llm label = None"

definition resolve_intent ::
  "pylib \<Rightarrow> catalog \<Rightarrow> string \<Rightarrow> (string \<times> string) list \<Rightarrow> bool \<Rightarrow> ResolvedIntent" where
  "resolve_intent L C label builtin_fields allow_llm =
     (let normalized = normalize_label L label
      in if normalized = []
         then \<lparr>kind = ''custom'', builtin_key = [], inferred_type = ''text'', anchors = [],
               match_strategy = ''empty'', confidence = 0\<rparr>
         else
           let candidates = build_builtin_candidates L C builtin_fields
           in case map_of (exact_lookup candidates) normalized of
                Some (key, strategy) \<Rightarrow>
                  \<lparr>kind = ''builtin'', builtin_key = key,
                   inferred_type = infer_type C normalized key,
                   anchors = build_anchors L C label key builtin_fields,
                   match_strategy = strategy, confidence = 1\<rparr>
              | None \<Rightarrow>
                  (case fuzzy_loop L normalized candidates ([], 0, []) of
                     (best_key, best_score, best_strategy) \<Rightarrow>
                       if best_key \<noteq> [] \<and> best_score \<ge> FUZZY_THRESHOLD
                       then \<lparr>kind = ''builtin'', builtin_key = best_key,
                             inferred_type = infer_type C normalized best_key,
                             anchors = build_anchors L C label best_key builtin_fields,
                             match_strategy = ''fuzzy'', confidence = best_score\<rparr>
                       else
                         (case (if allow_llm then resolve_intent_with_llm label else None) of
                            Some llm_result \<Rightarrow> llm_result
                          | None \<Rightarrow>
                              \<lparr>kind = ''custom'', builtin_key = [],
                               inferred_type = infer_type C normalized [],
                               anchors = (if py_strip label \<noteq> [] then [py_strip label] else []),
                               match_strategy = ''custom'', confidence = 0\<rparr>)))"


section \<open>migrations: the copies of the tables and of the text normalizer\<close>

text \<open>
  Migration 0006 carries a copy of the synonym and type tables; migration 0010 carries
  a copy of \<open>_normalize_for_match\<close>. They instantiate the catalog and the text
  normalizer in the examples below.
\<close>

definition catalog_0006 :: catalog where
  "catalog_0006 =
     \<lparr>SYNONYM_MAP =
        [(''codigo de barras'', ''barcode''),
         (''linha digitavel'', ''barcode''),
         (''barcode'', ''barcode''),
         (''vencimento'', ''due_date''),
         (''data de vencimento'', ''due_date''),
         (''data vencimento'', ''due_date''),
         (''valor'', ''document_value''),
         (''valor do documento'', ''document_value''),
         (''valor total'', ''document_value''),
         (''total a pagar'', ''document_value''),
         (''cnpj'', ''cnpj''),
         (''cpf'', ''cpf''),
         (''juros'', ''juros''),
         (''multa'', ''multa''),
         (''endereco de cobranca'', ''billing_address''),
         (''local de cobranca'', ''billing_address''),
         (''nome do cedente'', ''payee_name''),
         (''nome do sacado'', ''payer_name''),
         (''nosso numero'', ''document_number''),
         (''numero do documento'', ''document_number''),
         (''numero da conta'', ''document_number''),
         (''instrucoes'', ''instructions'')],
      TYPE_BY_BUILTIN =
        [(''due_date'', ''date''),
         (''document_value'', ''money''),
         (''barcode'', ''barcode''),
         (''billing_address'', ''address''),
         (''cnpj'', ''cnpj''),
         (''cpf'', ''cpf''),
         (''payee_name'', ''text''),
         (''payer_name'', ''text''),
         (''document_number'', ''id''),
         (''instructions'', ''text''),
         (''juros'', ''money''),
         (''multa'', ''money'')]\<rparr>"

definition normalize_for_match :: "pylib \<Rightarrow> string \<Rightarrow> string" where
  "normalize_for_match L v =
     (let normalized = nfkd L v;
          stripped = filter (\<lambda>ch. \<not> combining L ch) normalized
      in py_lower (py_strip (collapse_ws False stripped)))"

section \<open>The library on ASCII text\<close>

text \<open>
  An instance of the library parameters, used to evaluate the functions on concrete
  inputs. On ASCII text NFKD changes nothing and no character is a combining mark.
  \<open>int(s)\<close> is the full syntax (sign, digits, single underscores between digits).
  \<open>float(s)\<close> covers the special values and the integer literals below \<open>2^53\<close>,
  \<open>Decimal(s)\<close> the special values and the literals with a sign, digits and one
  optional point; \<open>str\<close> covers the special floats, the floats of integral value and
  the empty containers. The examples stay within these.
\<close>

definition is_digit :: "char \<Rightarrow> bool" where
  "is_digit c = (48 \<le> (of_char c :: nat) \<and> (of_char c :: nat) \<le> 57)"

definition digits_value :: "string \<Rightarrow> nat" where
  "digits_value ds = foldl (\<lambda>acc c. 10 * acc + (of_char c - 48)) 0 ds"

definition parse_digits :: "string \<Rightarrow> nat option" where
  "parse_digits body =
     (if body \<noteq> [] \<and> hd body \<noteq> CHR ''_'' \<and> last body \<noteq> CHR ''_'' \<and> \<not> sublist ''__'' body
         \<and> list_all (\<lambda>c. is_digit c \<or> c = CHR ''_'') body
      then Some (digits_value (filter (\<lambda>c. c \<noteq> CHR ''_'') body))
      else None)"

definition split_sign :: "string \<Rightarrow> bool \<times> string" where
  "split_sign t =
     (case t of
        [] \<Rightarrow> (False, [])
      | c # r \<Rightarrow> if c = CHR ''-'' then (True, r) else if c = CHR ''+'' then (False, r) else (False, t))"

definition ascii_int_of_str :: "string \<Rightarrow> int option" where
  "ascii_int_of_str s =
     (case split_sign (py_strip s) of
        (neg, body) \<Rightarrow> map_option (\<lambda>n. if neg then - int n else int n) (parse_digits body))"

definition ascii_float_of_str :: "string \<Rightarrow> pyfloat option" where
  "ascii_float_of_str s =
     (case split_sign (py_lower (py_strip s)) of
        (neg, body) \<Rightarrow>
          if body = ''nan'' then Some FNaN
          else if body = ''inf'' \<or> body = ''infinity'' then Some (if neg then FNegInf else FPosInf)
          else (case parse_digits body of
                  None \<Rightarrow> None
                | Some n \<Rightarrow> if n < 2 ^ 53
                            then Some (FFin (if neg then - of_nat n else of_nat n)) else None))"

definition ascii_decimal_of_str :: "string \<Rightarrow> decimal option" where
  "ascii_decimal_of_str s =
     (case split_sign (py_strip s) of
        (neg, body) \<Rightarrow>
          if py_lower body = ''nan'' then Some DNaN
          else if py_lower body = ''snan'' then Some DSNaN
          else if py_lower body = ''inf'' \<or> py_lower body = ''infinity'' then Some (DInf neg)
          else
            let ip = takeWhile is_digit body;
                rest = dropWhile is_digit body;
                fp = (case rest of
                        [] \<Rightarrow> Some []
                      | c # f \<Rightarrow> if c = CHR ''.'' \<and> list_all is_digit f then Some f else None)
            in (case fp of
                  None \<Rightarrow> None
                | Some f \<Rightarrow> if ip @ f = [] then None
                            else Some (DFin neg (digits_value (ip @ f)) (- int (length f)))))"

definition ascii_repr :: "pyval \<Rightarrow> string" where
  "ascii_repr v =
     (case v of
        PFloat FNaN \<Rightarrow> ''nan''
      | PFloat FPosInf \<Rightarrow> ''inf''
      | PFloat FNegInf \<Rightarrow> ''-inf''
      | PFloat (FFin q) \<Rightarrow> (if of_int \<lfloor>q\<rfloor> = q then str_of_int \<lfloor>q\<rfloor> @ ''.0'' else ''?'')
      | PList xs \<Rightarrow> (if xs = [] then ''[]'' else ''?'')
      | PDict d \<Rightarrow> (if d = [] then ''{}'' else ''?'')
      | _ \<Rightarrow> ''?'')"

text \<open>
  \<open>SequenceMatcher(None, a, b).ratio()\<close> without junk, which is what difflib computes
  when \<open>b\<close> has fewer than 200 characters: the longest common block, the earliest in
  \<open>a\<close> and then in \<open>b\<close> among the longest, then the same to its left and to its right;
  \<open>M\<close> is the total length of the blocks.
\<close>

fun common_prefix_len :: "string \<Rightarrow> string \<Rightarrow> nat" where
  "common_prefix_len (x # xs) (y # ys) = (if x = y then Suc (common_prefix_len xs ys) else 0)"
| "common_prefix_len xs ys = 0"

definition find_longest_match :: "string \<Rightarrow> string \<Rightarrow> nat \<times> nat \<times> nat" where
  "find_longest_match a b =
     foldl (\<lambda>(besti, bestj, bestsize) (i, j).
              let k = common_prefix_len (drop i a) (drop j b)
              in if k > bestsize then (i, j, k) else (besti, bestj, bestsize))
       (0, 0, 0)
       (concat (map (\<lambda>i. map (\<lambda>j. (i, j)) [0..<length b]) [0..<length a]))"

function matching_size :: "string \<Rightarrow> string \<Rightarrow> nat" where
  "matching_size a b =
     (case find_longest_match a b of
        (i, j, k) \<Rightarrow>
          if k = 0 \<or> i + k > length a then 0
          else k + matching_size (take i a) (take j b)
                 + matching_size (drop (i + k) a) (drop (j + k) b))"
  by pat_completeness auto
termination
  by (relation "measure (\<lambda>(a, b). length a)") auto

declare matching_size.simps [simp del]

definition sm_ratio :: "string \<Rightarrow> string \<Rightarrow> rat" where
  "sm_ratio a b =
     (if length a + length b = 0 then 1
      else of_nat (2 * matching_size a b) / of_nat (length a + length b))"

definition ascii_lib :: pylib where
  "ascii_lib =
     \<lparr>int_of_str = ascii_int_of_str,
      float_of_str = ascii_float_of_str,
      repr_other = ascii_repr,
      nfkd = (\<lambda>s. s),
      combining = (\<lambda>c. False),
      seq_ratio = sm_ratio,
      decimal_of_str = ascii_decimal_of_str\<rparr>"


section \<open>Notions used to state the properties\<close>

subsection \<open>Cleaned text\<close>

text \<open>
  A word is a non-empty run without whitespace; a cleaned text is a sequence of words
  joined by single spaces. Every result of \<open>_clean_text\<close> is of this form.
\<close>

definition word :: "string \<Rightarrow> bool" where
  "word w = (w \<noteq> [] \<and> (\<forall>c\<in>set w. \<not> py_isspace c))"

definition cleaned :: "string \<Rightarrow> bool" where
  "cleaned s = (\<exists>ws. (\<forall>w\<in>set ws. word w) \<and> s = join_sp ws)"

text \<open>A non-empty text that \<open>_clean_text\<close> with limit \<open>n\<close> leaves as it is.\<close>

definition fixed_text :: "pylib \<Rightarrow> nat \<Rightarrow> string \<Rightarrow> bool" where
  "fixed_text L n t = (t \<noteq> [] \<and> clean_text L n (PStr t) = t)"

subsection \<open>Fields of a payload\<close>

definition field :: "pyval \<Rightarrow> string \<Rightarrow> pyval" where
  "field v k = dict_get (as_dict v) k"

definition ai_years_estimate :: "document \<Rightarrow> pyval" where
  "ai_years_estimate doc =
     dict_get (as_dict (dict_get (get_ai_payload doc) ''experience'')) ''years_estimate''"

definition ai_age_estimate :: "document \<Rightarrow> pyval" where
  "ai_age_estimate doc =
     dict_get (as_dict (dict_get (get_ai_payload doc) ''person'')) ''age_estimate_years''"

text \<open>A float within \<open>[0, 1]\<close>; NaN and the infinities are not.\<close>

definition in_unit_interval :: "pyfloat \<Rightarrow> bool" where
  "in_unit_interval f = (case f of FFin q \<Rightarrow> 0 \<le> q \<and> q \<le> 1 | _ \<Rightarrow> False)"


subsection \<open>The range check as the specification words it\<close>

definition min_bound_ok :: "int option \<Rightarrow> int option \<Rightarrow> bool \<Rightarrow> bool" where
  "min_bound_ok resolved bound exclude_unknowns =
     (case bound of
        None \<Rightarrow> True
      | Some b \<Rightarrow> (case resolved of None \<Rightarrow> \<not> exclude_unknowns | Some v \<Rightarrow> v \<ge> b))"

definition max_bound_ok :: "int option \<Rightarrow> int option \<Rightarrow> bool \<Rightarrow> bool" where
  "max_bound_ok resolved bound exclude_unknowns =
     (case bound of
        None \<Rightarrow> True
      | Some b \<Rightarrow> (case resolved of None \<Rightarrow> \<not> exclude_unknowns | Some v \<Rightarrow> v \<le> b))"

subsection \<open>Candidates of the intent resolver\<close>

text \<open>
  The first and the last candidate, in the order of generation, whose normalized string
  is the normalized label; the best similarity ratio over the candidates and the first
  candidate that reaches it.
\<close>

definition first_match :: "string \<Rightarrow> (string \<times> string \<times> string) list \<Rightarrow> (string \<times> string \<times> string) option" where
  "first_match normalized candidates = find (\<lambda>(candidate, ks). candidate = normalized) candidates"

definition last_match :: "string \<Rightarrow> (string \<times> string \<times> string) list \<Rightarrow> (string \<times> string \<times> string) option" where
  "last_match normalized candidates = first_match normalized (rev candidates)"

definition best_ratio :: "pylib \<Rightarrow> string \<Rightarrow> (string \<times> string \<times> string) list \<Rightarrow> rat" where
  "best_ratio L normalized candidates =
     Max (set (map (\<lambda>(candidate, ks). seq_ratio L normalized candidate) candidates))"

definition first_best :: "pylib \<Rightarrow> string \<Rightarrow> (string \<times> string \<times> string) list \<Rightarrow> (string \<times> string \<times> string) option" where
  "first_best L normalized candidates =
     find (\<lambda>(candidate, ks). seq_ratio L normalized candidate = best_ratio L normalized candidates)
       candidates"

subsection \<open>Example documents\<close>

text \<open>
  The documents of the tests in tests/test\_ai\_filters.py: one with heuristic
  experience 1 and AI estimate 6, one with an AI payload without values, and a document
  without any content.
\<close>

definition doc_ai_six :: document where
  "doc_ai_six =
     \<lparr>extracted_json = PDict [(''ai'', PDict
        [(''doc_type'', PStr ''curriculo''),
         (''person'', PDict
           [(''name'', PNone), (''emails'', PList []), (''phones'', PList []),
            (''location'', PNone), (''age_estimate_years'', PNone), (''age_evidence'', PNone)]),
         (''experience'', PDict
           [(''years_estimate'', PInt 6),
            (''years_evidence'', PStr ''Trabalhou de 2018 ate atual.''),
            (''seniority'', PStr ''senior''), (''roles'', PList []), (''companies'', PList [])]),
         (''skills'', PList []), (''education'', PList []), (''keywords_evidence'', PList []),
         (''confidence'', PDict [(''overall'', PFloat (FFin (7 / 10)))])])],
      text_content_norm = [], text_content = [], extracted_text = [],
      extracted_age_years = PNone, extracted_experience_years = PInt 1\<rparr>"

definition doc_unknown :: document where
  "doc_unknown =
     \<lparr>extracted_json = PDict [(''ai'', PDict [(''person'', PDict []), (''experience'', PDict [])])],
      text_content_norm = [], text_content = [], extracted_text = [],
      extracted_age_years = PNone, extracted_experience_years = PNone\<rparr>"

definition doc_blank :: document where
  "doc_blank =
     \<lparr>extracted_json = PDict [],
      text_content_norm = [], text_content = [], extracted_text = [],
      extracted_age_years = PNone, extracted_experience_years = PNone\<rparr>"

subsection \<open>Example payloads\<close>

text \<open>
  Four payloads as \<open>json.loads\<close> can return them: one with a skill without evidence
  and a skill with evidence; one whose confidence is the JSON literal \<open>NaN\<close>; one whose
  confidence is the string \<open>"nan"\<close>; one whose age estimate is the JSON literal
  \<open>Infinity\<close> (or a number such as \<open>1e999\<close>).
\<close>

definition payload_two_skills :: pyval where
  "payload_two_skills =
     PDict [(''skills'', PList
       [PDict [(''name'', PStr ''Docker''), (''evidence'', PStr [])],
        PDict [(''name'', PStr ''Py''), (''evidence'', PStr ''used  py'')]])]"

definition payload_nan_confidence :: pyval where
  "payload_nan_confidence = PDict [(''confidence'', PDict [(''overall'', PFloat FNaN)])]"


definition payload_infinite_age :: pyval where
  "payload_infinite_age = PDict [(''person'', PDict [(''age_estimate_years'', PFloat FPosInf)])]"

text \<open>The normalized payload in which every field has its default.\<close>

definition default_payload :: "pyval \<Rightarrow> pyfloat \<Rightarrow> pyval" where
  "default_payload skills overall =
     PDict
       [(''doc_type'', PStr ''outro''),
        (''person'', PDict
          [(''name'', PNone), (''emails'', PList []), (''phones'', PList []),
           (''location'', PNone), (''age_estimate_years'', PNone), (''age_evidence'', PNone)]),
        (''experience'', PDict
          [(''years_estimate'', PNone), (''years_evidence'', PNone),
           (''seniority'', PStr ''unknown''), (''roles'', PList []), (''companies'', PList [])]),
        (''skills'', skills),
        (''education'', PList []), (''keywords_evidence'', PList []),
        (''confidence'', PDict [(''overall'', PFloat overall)])]"

section \<open>Range checks (ai\_filters.py)\<close>

lemma doc_unknown_exp: "resolve_experience_years ascii_lib doc_unknown = Inr None"
  by (simp add: resolve_experience_years_def doc_unknown_def get_ai_payload_def dict_get_def
      as_dict_def safe_int_def)

lemma doc_unknown_age: "resolve_age_years ascii_lib doc_unknown = Inr None"
  by (simp add: resolve_age_years_def doc_unknown_def get_ai_payload_def dict_get_def
      as_dict_def safe_int_def)

text \<open>
  Claim C8. In \<open>document_passes_ranges\<close> each of the four optional bounds is checked
  on its own: with the bound given and the resolved value unknown, the document is
  rejected exactly when \<open>exclude_unknowns\<close> is set; with the value known, it is rejected
  unless the value is at least the minimum and at most the maximum. The result is the
  conjunction of the four checks.
\<close>

theorem range_check_per_bound:
  assumes "resolve_experience_years L doc = Inr ev"
    and "resolve_age_years L doc = Inr av"
  shows "document_passes_ranges L doc emin emax amin amax eu =
     Inr (min_bound_ok ev emin eu \<and> max_bound_ok ev emax eu
          \<and> min_bound_ok av amin eu \<and> max_bound_ok av amax eu)"
  using assms
  by (cases emin; cases emax; cases amin; cases amax; cases ev; cases av)
     (auto simp: document_passes_ranges_def min_bound_ok_def max_bound_ok_def)

theorem range_check_per_bound_witness:
  "resolve_experience_years ascii_lib doc_unknown = Inr None
   \<and> resolve_age_years ascii_lib doc_unknown = Inr None
   \<and> document_passes_ranges ascii_lib doc_unknown (Some 3) None None None True = Inr False
   \<and> document_passes_ranges ascii_lib doc_unknown (Some 3) None None None False = Inr True"
  using range_check_per_bound [OF doc_unknown_exp doc_unknown_age, of "Some 3" None None None True]
    range_check_per_bound [OF doc_unknown_exp doc_unknown_age, of "Some 3" None None None False]
    doc_unknown_exp doc_unknown_age
  by (simp add: min_bound_ok_def max_bound_ok_def)

section \<open>Value precedence and exclusion (ai\_filters.py)\<close>

lemma safe_int_some:
  "py_int L x = Inr v \<Longrightarrow> lo \<le> v \<Longrightarrow> v \<le> hi \<Longrightarrow> safe_int L x lo hi = Inr (Some v)"
  by (cases "x = PNone") (auto simp: safe_int_def py_int_def)

lemma safe_int_none:
  "x = PNone \<or> py_int L x = Inl TypeError \<or> py_int L x = Inl ValueError
     \<or> (\<exists>v. py_int L x = Inr v \<and> (v < lo \<or> hi < v)) \<Longrightarrow> safe_int L x lo hi = Inr None"
  by (cases "x = PNone") (auto simp: safe_int_def)

lemma resolve_experience_unfold:
  "resolve_experience_years L doc =
     (case safe_int L (ai_years_estimate doc) 0 60 of
        Inl e \<Rightarrow> Inl e
      | Inr (Some ai_value) \<Rightarrow> Inr (Some ai_value)
      | Inr None \<Rightarrow> safe_int L (extracted_experience_years doc) 0 60)"
  by (simp add: resolve_experience_years_def ai_years_estimate_def Let_def)

lemma resolve_age_unfold:
  "resolve_age_years L doc =
     (case safe_int L (ai_age_estimate doc) 0 120 of
        Inl e \<Rightarrow> Inl e
      | Inr (Some ai_value) \<Rightarrow> Inr (Some ai_value)
      | Inr None \<Rightarrow> safe_int L (extracted_age_years doc) 0 120)"
  by (simp add: resolve_age_years_def ai_age_estimate_def Let_def)

lemma resolve_experience_ai:
  "py_int L (ai_years_estimate doc) = Inr v \<Longrightarrow> 0 \<le> v \<Longrightarrow> v \<le> 60 \<Longrightarrow>
   resolve_experience_years L doc = Inr (Some v)"
  by (simp add: resolve_experience_unfold safe_int_some)

lemma resolve_experience_fallback:
  "ai_years_estimate doc = PNone \<or> py_int L (ai_years_estimate doc) = Inl TypeError
     \<or> py_int L (ai_years_estimate doc) = Inl ValueError
     \<or> (\<exists>v. py_int L (ai_years_estimate doc) = Inr v \<and> (v < 0 \<or> 60 < v)) \<Longrightarrow>
   resolve_experience_years L doc = safe_int L (extracted_experience_years doc) 0 60"
  using safe_int_none[of "ai_years_estimate doc" L 0 60]
  by (simp add: resolve_experience_unfold)

lemma resolve_age_ai:
  "py_int L (ai_age_estimate doc) = Inr v \<Longrightarrow> 0 \<le> v \<Longrightarrow> v \<le> 120 \<Longrightarrow>
   resolve_age_years L doc = Inr (Some v)"
  by (simp add: resolve_age_unfold safe_int_some)

lemma resolve_age_fallback:
  "ai_age_estimate doc = PNone \<or> py_int L (ai_age_estimate doc) = Inl TypeError
     \<or> py_int L (ai_age_estimate doc) = Inl ValueError
     \<or> (\<exists>v. py_int L (ai_age_estimate doc) = Inr v \<and> (v < 0 \<or> 120 < v)) \<Longrightarrow>
   resolve_age_years L doc = safe_int L (extracted_age_years doc) 0 120"
  using safe_int_none[of "ai_age_estimate doc" L 0 120]
  by (simp add: resolve_age_unfold)

lemma doc_ai_six_years: "ai_years_estimate doc_ai_six = PInt 6"
  by (simp add: ai_years_estimate_def doc_ai_six_def get_ai_payload_def dict_get_def as_dict_def)

lemma doc_ai_six_age: "ai_age_estimate doc_ai_six = PNone"
  by (simp add: ai_age_estimate_def doc_ai_six_def get_ai_payload_def dict_get_def as_dict_def)

lemma doc_ai_six_passes:
  "document_passes_semantic_filters L nfm doc_ai_six [] ''all'' [] (Some 5) None None None False
     = Inr True"
proof -
  have e: "resolve_experience_years L doc_ai_six = Inr (Some 6)"
    by (rule resolve_experience_ai) (simp_all add: doc_ai_six_years py_int_def)
  have a: "resolve_age_years L doc_ai_six = Inr None"
    using resolve_age_fallback[of doc_ai_six L]
    by (simp add: doc_ai_six_age) (simp add: doc_ai_six_def safe_int_def)
  show ?thesis
    by (simp add: document_passes_semantic_filters_def document_matches_terms_def
        document_matches_excludes_def document_passes_ranges_def e a)
qed

text \<open>
  Claim C7. The experience and age values used by the range filter are the AI values
  when \<open>int\<close> of them returns a number within bounds (\<open>[0, 60]\<close> for experience,
  \<open>[0, 120]\<close> for age), whatever the heuristic field holds; the heuristic field is read
  when the AI value is absent, not parseable as an integer or out of bounds. A document
  with heuristic experience 1 and AI estimate 6 passes a filter with
  \<open>experience_min_years = 5\<close>.
\<close>

theorem ai_value_preferred:
  "(py_int L (ai_years_estimate doc) = Inr v \<and> 0 \<le> v \<and> v \<le> 60
      \<longrightarrow> resolve_experience_years L doc = Inr (Some v))
   \<and> (ai_years_estimate doc = PNone \<or> py_int L (ai_years_estimate doc) = Inl TypeError
        \<or> py_int L (ai_years_estimate doc) = Inl ValueError
        \<or> (\<exists>w. py_int L (ai_years_estimate doc) = Inr w \<and> (w < 0 \<or> 60 < w))
      \<longrightarrow> resolve_experience_years L doc = safe_int L (extracted_experience_years doc) 0 60)
   \<and> (py_int L (ai_age_estimate doc) = Inr v \<and> 0 \<le> v \<and> v \<le> 120
      \<longrightarrow> resolve_age_years L doc = Inr (Some v))
   \<and> (ai_age_estimate doc = PNone \<or> py_int L (ai_age_estimate doc) = Inl TypeError
        \<or> py_int L (ai_age_estimate doc) = Inl ValueError
        \<or> (\<exists>w. py_int L (ai_age_estimate doc) = Inr w \<and> (w < 0 \<or> 120 < w))
      \<longrightarrow> resolve_age_years L doc = safe_int L (extracted_age_years doc) 0 120)
   \<and> extracted_experience_years doc_ai_six = PInt 1
   \<and> ai_years_estimate doc_ai_six = PInt 6
   \<and> document_passes_semantic_filters L nfm doc_ai_six [] ''all'' [] (Some 5) None None None False
        = Inr True"
  using resolve_experience_ai[of L doc v] resolve_experience_fallback[of doc L]
    resolve_age_ai[of L doc v] resolve_age_fallback[of doc L]
    doc_ai_six_passes[of L nfm] doc_ai_six_years
  by (simp add: doc_ai_six_def)

theorem ai_value_preferred_witness:
  "py_int ascii_lib (ai_years_estimate doc_ai_six) = Inr 6
   \<and> resolve_experience_years ascii_lib doc_ai_six = Inr (Some 6)
   \<and> ai_age_estimate doc_ai_six = PNone
   \<and> resolve_age_years ascii_lib doc_ai_six = Inr None"
  using ai_value_preferred [of ascii_lib doc_ai_six 6 "normalize_for_match ascii_lib"]
    doc_ai_six_years doc_ai_six_age
  by (simp add: py_int_def) (simp add: doc_ai_six_def safe_int_def)

lemma passes_ranges_no_bounds:
  "resolve_experience_years L doc = Inr ev \<Longrightarrow> resolve_age_years L doc = Inr av \<Longrightarrow>
   document_passes_ranges L doc None None None None eu = Inr True"
  by (simp add: document_passes_ranges_def)

text \<open>
  Claim C10. A document whose search blob is empty is never excluded: for every list
  of exclusion terms \<open>document_matches_excludes\<close> is false on it, the exclusion terms
  do not change the result of the semantic filters, and a filter made of exclusion terms
  only admits the document.
\<close>

theorem blank_document_never_excluded:
  "(build_document_blob L nfm doc = [] \<longrightarrow> \<not> document_matches_excludes L nfm doc exclude_terms)
   \<and> (build_document_blob L nfm doc = [] \<longrightarrow>
        document_passes_semantic_filters L nfm doc [] mode exclude_terms emin emax amin amax eu
        = document_passes_semantic_filters L nfm doc [] mode [] emin emax amin amax eu)
   \<and> (build_document_blob L nfm doc = [] \<and> resolve_experience_years L doc = Inr ev
        \<and> resolve_age_years L doc = Inr av \<longrightarrow>
        document_passes_semantic_filters L nfm doc [] mode exclude_terms None None None None eu
        = Inr True)"
  by (simp add: document_matches_excludes_def document_passes_semantic_filters_def
      document_matches_terms_def document_passes_ranges_def Let_def)

lemma doc_blank_blob: "build_document_blob ascii_lib (normalize_for_match ascii_lib) doc_blank = []"
  by (simp add: build_document_blob_def build_ai_search_blob_def get_ai_payload_def dict_get_def
      as_dict_def doc_blank_def iter_search_chunks_def clean_text_def py_str_def py_split_def
      py_strip_def py_lstrip_def normalize_for_match_def ascii_lib_def py_lower_def Let_def)

lemma doc_blank_exp: "resolve_experience_years ascii_lib doc_blank = Inr None"
  by (simp add: resolve_experience_years_def doc_blank_def get_ai_payload_def dict_get_def
      as_dict_def safe_int_def)

lemma doc_blank_age: "resolve_age_years ascii_lib doc_blank = Inr None"
  by (simp add: resolve_age_years_def doc_blank_def get_ai_payload_def dict_get_def
      as_dict_def safe_int_def)

theorem blank_document_never_excluded_witness:
  "build_document_blob ascii_lib (normalize_for_match ascii_lib) doc_blank = []
   \<and> \<not> document_matches_excludes ascii_lib (normalize_for_match ascii_lib) doc_blank ['''', ''docker'']
   \<and> document_passes_semantic_filters ascii_lib (normalize_for_match ascii_lib) doc_blank []
        ''all'' ['''', ''docker''] None None None None True = Inr True"
  using blank_document_never_excluded [of ascii_lib "normalize_for_match ascii_lib" doc_blank
      "['''', ''docker'']" "''all''" None None None None True None None]
    doc_blank_blob doc_blank_exp doc_blank_age
  by blast

section \<open>The decimal money parser (processing.py)\<close>

lemma quantize_cents_result:
  "quantize_cents d = Some d' \<Longrightarrow> d' = DNaN \<or> two_places d'"
  by (cases d) (auto simp: quantize_cents_def two_places_def Let_def split: if_splits)

lemma parse_decimal_json:
  "parse_decimal L (Json v) = Some d' \<Longrightarrow> d' = DNaN \<or> two_places d'"
  by (auto simp: parse_decimal_def Let_def split: if_splits option.splits
      dest: quantize_cents_result)

text \<open>The three examples of the specification, and a text that yields a NaN.\<close>

lemma digits_value_examples:
  "digits_value ''123456'' = 123456" "digits_value ''1000'' = 1000"
  by (simp_all add: digits_value_def)

lemma ascii_decimal_examples:
  "ascii_decimal_of_str ''1234.56'' = Some (DFin False 123456 (- 2))"
  "ascii_decimal_of_str ''10.00'' = Some (DFin False 1000 (- 2))"
  "ascii_decimal_of_str ''abc'' = None"
  "ascii_decimal_of_str ''nan'' = Some DNaN"
  by (simp_all add: ascii_decimal_of_str_def py_strip_def py_lstrip_def py_isspace_def
      split_sign_def py_lower_def lower_char_def is_digit_def digits_value_examples Let_def)

lemma strip_examples:
  "py_strip ''1.234,56'' = ''1.234,56''" "py_strip ''10,00'' = ''10,00''"
  "py_strip ''abc'' = ''abc''" "py_strip ''nan'' = ''nan''"
  by (simp_all add: py_strip_def py_lstrip_def py_isspace_def)

lemma parse_decimal_examples:
  "parse_decimal ascii_lib (Json (PStr ''1.234,56'')) = Some (DFin False 123456 (- 2))"
  "parse_decimal ascii_lib (Json (PStr ''10,00'')) = Some (DFin False 1000 (- 2))"
  "parse_decimal ascii_lib (Json (PStr ''abc'')) = None"
  "parse_decimal ascii_lib (Json (PStr ''nan'')) = Some DNaN"
  by (simp_all add: parse_decimal_def py_str_def strip_examples ascii_lib_def
      ascii_decimal_examples quantize_cents_def)

text \<open>
  Claim C2, as stated: every value the parser returns is quantized to 2 decimal places,
  also one that was already a decimal. It fails for a \<open>Decimal\<close> argument, which the
  parser returns as it is: \<open>Decimal("1.5")\<close> comes back with one decimal place.
\<close>

theorem money_parser_passes_decimal_counterexample:
  "parse_decimal ascii_lib (Dec (DFin False 15 (- 1))) = Some (DFin False 15 (- 1))
   \<and> \<not> two_places (DFin False 15 (- 1))"
  by (simp add: parse_decimal_def two_places_def)

text \<open>
  Claim C2, amended: an argument that is already a \<open>Decimal\<close> is returned unchanged;
  for every other argument the parser returns null or, unless the text denotes a NaN, a
  decimal quantized to exactly 2 decimal places.
\<close>

theorem money_parser_quantized:
  "parse_decimal L (Dec d) = Some d
   \<and> (parse_decimal L (Json v) = Some d' \<and> d' \<noteq> DNaN \<longrightarrow> two_places d')"
  using parse_decimal_json[of L v d'] by (auto simp: parse_decimal_def)

theorem money_parser_quantized_witness:
  "parse_decimal ascii_lib (Json (PStr ''1.234,56'')) = Some (DFin False 123456 (- 2))
   \<and> DFin False 123456 (- 2) \<noteq> DNaN
   \<and> two_places (DFin False 123456 (- 2))"
  using money_parser_quantized [of ascii_lib DNaN "PStr ''1.234,56''" "DFin False 123456 (- 2)"]
    parse_decimal_examples(1)
  by simp

section \<open>The payload normalizer (ai\_extraction.py)\<close>

subsection \<open>Evaluation on the example payloads\<close>

lemma clean_text_None: "clean_text L n PNone = []"
  by (simp add: clean_text_def)

lemma clean_list_None: "clean_list L m n PNone = []"
  by (simp add: clean_list_def)

lemma clean_text_examples:
  "clean_text L 120 (PStr ''Docker'') = ''Docker''"
  "clean_text L 220 (PStr []) = []"
  "clean_text L 120 (PStr ''Py'') = ''Py''"
  "clean_text L 220 (PStr ''used  py'') = ''used py''"
  by (simp_all add: clean_text_def py_str_def py_split_def py_strip_def py_lstrip_def
      py_isspace_def Let_def)

lemma skill_examples:
  "normalize_skill L (PDict [(''name'', PStr ''Docker''), (''evidence'', PStr [])]) = None"
  "normalize_skill L (PDict [(''name'', PStr ''Py''), (''evidence'', PStr ''used  py'')])
     = Some (PDict [(''name'', PStr ''Py''), (''level'', PStr ''unknown''),
                    (''evidence'', PStr ''used py'')])"
  by (simp_all add: normalize_skill_def dict_get_def clean_text_examples clean_text_None
      py_lower_def SKILL_LEVEL_CHOICES_def Let_def)

lemma normalize_two_skills:
  "normalize_ai_payload L payload_two_skills =
     Inr (default_payload
       (PList [PDict [(''name'', PStr ''Py''), (''level'', PStr ''unknown''),
                      (''evidence'', PStr ''used py'')]])
       (FFin 0))"
  by (simp add: normalize_ai_payload_def payload_two_skills_def default_payload_def as_dict_def
      as_list_def dict_get_def clean_int_def clean_float_def py_float_def float_lt_def
      float_gt_def Let_def clean_text_None clean_optional_text_def clean_list_None opt_int_def
      str_list_def py_lower_def DOC_TYPE_CHOICES_def SENIORITY_CHOICES_def skill_examples)

subsection \<open>Confidence and totality\<close>

text \<open>
  Claim C3 asks for \<open>confidence.overall\<close> within \<open>[0, 1]\<close> on every input. On a payload
  whose confidence is NaN both comparisons of \<open>_clean_float\<close> are false and the NaN is
  returned: the output confidence is not within \<open>[0, 1]\<close>.
\<close>

theorem normalizer_keeps_nan_confidence:
  "normalize_ai_payload L payload_nan_confidence = Inr (default_payload (PList []) FNaN)
   \<and> field (field (default_payload (PList []) FNaN) ''confidence'') ''overall'' = PFloat FNaN
   \<and> \<not> in_unit_interval FNaN"
  by (simp add: normalize_ai_payload_def payload_nan_confidence_def default_payload_def as_dict_def
      as_list_def dict_get_def clean_int_def clean_float_def py_float_def float_lt_def
      float_gt_def Let_def clean_text_None clean_optional_text_def clean_list_None opt_int_def
      str_list_def py_lower_def DOC_TYPE_CHOICES_def SENIORITY_CHOICES_def field_def
      in_unit_interval_def)

text \<open>
  Claim C4 asks that the normalizer never raises. On a payload whose age estimate is an
  infinite float, \<open>int(value)\<close> raises \<open>OverflowError\<close>, which \<open>_clean_int\<close> does not
  catch: the normalizer raises.
\<close>

theorem normalizer_raises_on_infinite_age:
  "normalize_ai_payload L payload_infinite_age = Inl OverflowError"
  by (simp add: normalize_ai_payload_def payload_infinite_age_def as_dict_def as_list_def
      dict_get_def clean_int_def py_int_def Let_def)

text \<open>
  \<open>float(n)\<close> raises for every integer of magnitude \<open>2^1024\<close> or more, and with it
  \<open>_clean_float\<close> and the normalizer on such a confidence.
\<close>

lemma float_of_int_overflow:
  assumes "2 ^ 1024 \<le> \<bar>n\<bar>"
  shows "float_of_int n = Inl OverflowError"
proof -
  define m where "m = nat \<bar>n\<bar>"
  have m: "(2::nat) ^ 1024 \<le> m"
    using assms unfolding m_def by (simp add: le_nat_iff)
  define b where "b = floorlog 2 m"
  have b1: "Suc 1024 \<le> b"
    unfolding b_def by (rule floorlog_ge_SucI) (use m in simp_all)
  have "0 < m" using m by (metis gr0I not_le zero_less_numeral zero_less_power)
  then have lo: "2 ^ (b - 1) \<le> m"
    using floorlog_bounds[of m 2] by (simp add: b_def)
  define e where "e = b - 53"
  have be: "b - 1 = 52 + e" using b1 by (simp add: e_def)
  have p: "(2::nat) ^ (b - 1) = 2 ^ 52 * 2 ^ e" unfolding be by (simp only: power_add)
  define q where "q = m div 2 ^ e"
  have "(2 ^ 52 * 2 ^ e) div 2 ^ e \<le> m div (2::nat) ^ e"
    using lo unfolding p by (rule div_le_mono)
  then have q: "2 ^ 52 \<le> q" by (simp add: q_def)
  have big: "(2::nat) ^ 1024 \<le> 2 ^ (b - 1)"
    using b1 by (intro power_increasing) simp_all
  have v: "(2::nat) ^ 1024 \<le> q' * 2 ^ e" if "q \<le> q'" for q'
  proof -
    have "2 ^ 52 * 2 ^ e \<le> q' * (2::nat) ^ e"
      using q that by (intro mult_le_mono1) simp
    then show ?thesis using big unfolding p by (rule order_trans[rotated])
  qed
  have m53: "\<not> m < 2 ^ 53"
  proof -
    have "(2::nat) ^ 53 \<le> 2 ^ 1024" by (intro power_increasing) simp_all
    then show ?thesis using m by (simp only: not_less order_trans)
  qed
  show ?thesis
    unfolding float_of_int_def Let_def m_def [symmetric] b_def [symmetric] e_def [symmetric]
      q_def [symmetric]
    using m53 v[of q] v[of "q + 1"] by (simp only: if_False if_True split: if_splits) auto
qed

lemma normalizer_raises_on_huge_confidence:
  "2 ^ 1024 \<le> n \<Longrightarrow>
   normalize_ai_payload L (PDict [(''confidence'', PDict [(''overall'', PInt n)])])
     = Inl OverflowError"
  by (simp add: normalize_ai_payload_def as_dict_def as_list_def dict_get_def clean_int_def
      clean_float_def py_float_def float_of_int_overflow Let_def)

subsection \<open>Composite entries\<close>

lemma collect_items_eq:
  "length acc < cap \<Longrightarrow>
   collect_items cap f xs acc = acc @ take (cap - length acc) (List.map_filter f xs)"
proof (induction xs arbitrary: acc)
  case Nil
  then show ?case by (simp add: List.map_filter_simps)
next
  case (Cons x xs)
  show ?case
  proof (cases "f x")
    case None
    then show ?thesis using Cons by (simp add: List.map_filter_simps)
  next
    case (Some n)
    show ?thesis
    proof (cases "Suc (length acc) \<ge> cap")
      case True
      with Cons.prems have "cap - length acc = Suc 0" by simp
      then show ?thesis using Some True by (simp add: List.map_filter_simps)
    next
      case False
      then have "length (acc @ [n]) < cap" by simp
      from Cons.IH[OF this] show ?thesis using Some False
        by (simp add: List.map_filter_simps Suc_diff_Suc take_Cons')
    qed
  qed
qed

lemma collect_items_take:
  "0 < cap \<Longrightarrow> collect_items cap f xs [] = take cap (List.map_filter f xs)"
  using collect_items_eq[of "[]" cap f xs] by simp

lemma normalize_lists:
  assumes "normalize_ai_payload L x = Inr y"
  shows "field y ''skills'' = PList (collect_items 30 (normalize_skill L) (as_list (field x ''skills'')) [])"
    and "field y ''education'' = PList (collect_items 20 (normalize_education L) (as_list (field x ''education'')) [])"
    and "field y ''keywords_evidence'' =
       PList (collect_items 40 (normalize_keyword_evidence L) (as_list (field x ''keywords_evidence'')) [])"
  using assms
  by (auto simp: normalize_ai_payload_def Let_def field_def dict_get_def as_dict_def
      split: sum.splits)

lemma normalize_skill_None:
  "clean_text L 120 (field raw ''name'') = [] \<or> clean_text L 220 (field raw ''evidence'') = []
   \<Longrightarrow> normalize_skill L raw = None"
  by (cases raw) (auto simp: normalize_skill_def field_def as_dict_def Let_def)

lemma normalize_education_None:
  "clean_text L 220 (field raw ''evidence'') = [] \<Longrightarrow> normalize_education L raw = None"
  by (cases raw) (auto simp: normalize_education_def field_def as_dict_def Let_def)

lemma normalize_keyword_evidence_None:
  "clean_text L 120 (field raw ''term'') = [] \<or> clean_text L 220 (field raw ''evidence'') = []
   \<Longrightarrow> normalize_keyword_evidence L raw = None"
  by (cases raw) (auto simp: normalize_keyword_evidence_def field_def as_dict_def Let_def)

lemma normalize_skill_Some:
  "normalize_skill L raw = Some e \<Longrightarrow>
   \<exists>n ev. field e ''name'' = PStr n \<and> n \<noteq> [] \<and> field e ''evidence'' = PStr ev \<and> ev \<noteq> []"
  by (cases raw) (auto simp: normalize_skill_def field_def as_dict_def dict_get_def Let_def
      split: if_splits)

lemma normalize_education_Some:
  "normalize_education L raw = Some e \<Longrightarrow> \<exists>ev. field e ''evidence'' = PStr ev \<and> ev \<noteq> []"
  by (cases raw) (auto simp: normalize_education_def field_def as_dict_def dict_get_def Let_def
      split: if_splits)

lemma normalize_keyword_evidence_Some:
  "normalize_keyword_evidence L raw = Some e \<Longrightarrow>
   \<exists>t ev. field e ''term'' = PStr t \<and> t \<noteq> [] \<and> field e ''evidence'' = PStr ev \<and> ev \<noteq> []"
  by (cases raw) (auto simp: normalize_keyword_evidence_def field_def as_dict_def dict_get_def Let_def
      split: if_splits)

lemma in_take_map_filter:
  "e \<in> set (take n (List.map_filter f xs)) \<Longrightarrow> \<exists>raw\<in>set xs. f raw = Some e"
proof -
  assume "e \<in> set (take n (List.map_filter f xs))"
  then have "e \<in> set (List.map_filter f xs)" by (rule in_set_takeD)
  then obtain raw where "raw \<in> set xs" "f raw \<noteq> None" "e = the (f raw)"
    by (auto simp: List.map_filter_def)
  then have "raw \<in> set xs \<and> f raw = Some e" by auto
  then show ?thesis by blast
qed

text \<open>
  Claim C9. The normalizer drops every composite entry that misses a required field:
  the output lists are the kept entries of the input lists, in order, up to the cap; a
  skill whose name or evidence cleans to empty, an education entry whose evidence cleans
  to empty and a keyword entry whose term or evidence cleans to empty are not kept; and
  every entry of the output has its required fields non-empty.
\<close>

theorem required_fields_dropped:
  assumes "normalize_ai_payload L x = Inr y"
  shows "as_list (field y ''skills'')
           = take 30 (List.map_filter (normalize_skill L) (as_list (field x ''skills'')))
    \<and> as_list (field y ''education'')
           = take 20 (List.map_filter (normalize_education L) (as_list (field x ''education'')))
    \<and> as_list (field y ''keywords_evidence'')
           = take 40 (List.map_filter (normalize_keyword_evidence L)
               (as_list (field x ''keywords_evidence'')))
    \<and> (\<forall>raw. clean_text L 120 (field raw ''name'') = [] \<or> clean_text L 220 (field raw ''evidence'') = []
          \<longrightarrow> normalize_skill L raw = None)
    \<and> (\<forall>raw. clean_text L 220 (field raw ''evidence'') = [] \<longrightarrow> normalize_education L raw = None)
    \<and> (\<forall>raw. clean_text L 120 (field raw ''term'') = [] \<or> clean_text L 220 (field raw ''evidence'') = []
          \<longrightarrow> normalize_keyword_evidence L raw = None)
    \<and> (\<forall>e\<in>set (as_list (field y ''skills'')).
          \<exists>n ev. field e ''name'' = PStr n \<and> n \<noteq> [] \<and> field e ''evidence'' = PStr ev \<and> ev \<noteq> [])
    \<and> (\<forall>e\<in>set (as_list (field y ''education'')).
          \<exists>ev. field e ''evidence'' = PStr ev \<and> ev \<noteq> [])
    \<and> (\<forall>e\<in>set (as_list (field y ''keywords_evidence'')).
          \<exists>t ev. field e ''term'' = PStr t \<and> t \<noteq> [] \<and> field e ''evidence'' = PStr ev \<and> ev \<noteq> [])"
proof -
  have s: "as_list (field y ''skills'')
           = take 30 (List.map_filter (normalize_skill L) (as_list (field x ''skills'')))"
    using normalize_lists(1)[OF assms] by (simp add: as_list_def collect_items_take)
  have e: "as_list (field y ''education'')
           = take 20 (List.map_filter (normalize_education L) (as_list (field x ''education'')))"
    using normalize_lists(2)[OF assms] by (simp add: as_list_def collect_items_take)
  have k: "as_list (field y ''keywords_evidence'')
           = take 40 (List.map_filter (normalize_keyword_evidence L)
               (as_list (field x ''keywords_evidence'')))"
    using normalize_lists(3)[OF assms] by (simp add: as_list_def collect_items_take)
  have s': "\<forall>e\<in>set (as_list (field y ''skills'')).
          \<exists>n ev. field e ''name'' = PStr n \<and> n \<noteq> [] \<and> field e ''evidence'' = PStr ev \<and> ev \<noteq> []"
    unfolding s using in_take_map_filter normalize_skill_Some by meson
  have e': "\<forall>e\<in>set (as_list (field y ''education'')).
          \<exists>ev. field e ''evidence'' = PStr ev \<and> ev \<noteq> []"
    unfolding e using in_take_map_filter normalize_education_Some by meson
  have k': "\<forall>e\<in>set (as_list (field y ''keywords_evidence'')).
          \<exists>t ev. field e ''term'' = PStr t \<and> t \<noteq> [] \<and> field e ''evidence'' = PStr ev \<and> ev \<noteq> []"
    unfolding k using in_take_map_filter normalize_keyword_evidence_Some by meson
  show ?thesis
    using s e k s' e' k' normalize_skill_None normalize_education_None
      normalize_keyword_evidence_None by blast
qed

theorem required_fields_dropped_witness:
  "normalize_ai_payload ascii_lib payload_two_skills =
     Inr (default_payload
       (PList [PDict [(''name'', PStr ''Py''), (''level'', PStr ''unknown''),
                      (''evidence'', PStr ''used py'')]])
       (FFin 0))
   \<and> as_list (field (default_payload
       (PList [PDict [(''name'', PStr ''Py''), (''level'', PStr ''unknown''),
                      (''evidence'', PStr ''used py'')]])
       (FFin 0)) ''skills'')
     = take 30 (List.map_filter (normalize_skill ascii_lib)
         (as_list (field payload_two_skills ''skills'')))"
  using required_fields_dropped [OF normalize_two_skills, of ascii_lib] normalize_two_skills
  by blast

subsection \<open>Cleaned text is a fixed point of cleaning\<close>

lemma space_isspace: "py_isspace CHR '' ''"
  by (simp add: py_isspace_def)

lemma rstrip_append: "py_rstrip (a @ b) = (if py_rstrip b = [] then py_rstrip a else a @ py_rstrip b)"
  by (induction a) (auto simp: Let_def)

lemma rstrip_nospace: "\<forall>c\<in>set w. \<not> py_isspace c \<Longrightarrow> py_rstrip w = w"
  by (induction w) (auto simp: Let_def)

lemma rstrip_word: "word w \<Longrightarrow> py_rstrip w = w"
  by (simp add: word_def rstrip_nospace)

lemma rstrip_word_sp:
  "word w \<Longrightarrow> py_rstrip (w @ CHR '' '' # x) = (if py_rstrip x = [] then w else w @ CHR '' '' # py_rstrip x)"
  by (simp add: rstrip_append rstrip_word space_isspace Let_def)

lemma rstrip_join: "\<forall>w\<in>set ws. word w \<Longrightarrow> py_rstrip (join_sp ws) = join_sp ws"
proof (induction ws rule: join_sp.induct)
  case (3 w v ws)
  then have "join_sp (v # ws) \<noteq> []" by (cases ws) (auto simp: word_def)
  with 3 show ?case by (simp add: rstrip_append)
qed (auto simp: rstrip_word)

lemma lstrip_join: "\<forall>w\<in>set ws. word w \<Longrightarrow> py_lstrip (join_sp ws) = join_sp ws"
  by (induction ws rule: join_sp.induct) (auto simp: py_lstrip_def word_def neq_Nil_conv)

lemma strip_join: "\<forall>w\<in>set ws. word w \<Longrightarrow> py_strip (join_sp ws) = join_sp ws"
  by (simp add: py_strip_def lstrip_join rstrip_join)

lemma split_ws_nospace: "\<forall>c\<in>set w. \<not> py_isspace c \<Longrightarrow> split_ws cur (w @ rest) = split_ws (cur @ w) rest"
  by (induction w arbitrary: cur) auto

lemma split_join_aux: "\<forall>w\<in>set ws. word w \<Longrightarrow> ws \<noteq> [] \<Longrightarrow> split_ws [] (join_sp ws) = ws"
proof (induction ws rule: join_sp.induct)
  case 1 then show ?case by simp
next
  case (2 w)
  then show ?case using split_ws_nospace[of w "[]" "[]"] by (simp add: word_def)
next
  case (3 w v ws)
  have "split_ws [] (w @ CHR '' '' # join_sp (v # ws)) = split_ws w (CHR '' '' # join_sp (v # ws))"
    using 3 split_ws_nospace[of w "[]"] by (simp add: word_def)
  also have "\<dots> = w # split_ws [] (join_sp (v # ws))"
    using 3 by (simp add: space_isspace word_def)
  finally show ?case using 3 by simp
qed

lemma split_join: "\<forall>w\<in>set ws. word w \<Longrightarrow> py_split (join_sp ws) = ws"
  by (cases "ws = []") (simp_all add: py_split_def split_join_aux)

lemma split_ws_words: "\<forall>c\<in>set cur. \<not> py_isspace c \<Longrightarrow> \<forall>w\<in>set (split_ws cur s). word w"
proof (induction s arbitrary: cur)
  case Nil
  then show ?case by (simp add: word_def)
next
  case (Cons c cs)
  show ?case
  proof (cases "py_isspace c")
    case True
    have "\<forall>w\<in>set (split_ws [] cs). word w" using Cons.IH[of "[]"] by simp
    then show ?thesis using True Cons.prems by (simp add: word_def)
  next
    case False
    have "\<forall>w\<in>set (split_ws (cur @ [c]) cs). word w"
      using Cons.IH[of "cur @ [c]"] Cons.prems False by simp
    then show ?thesis using False by simp
  qed
qed

lemma split_words: "\<forall>w\<in>set (py_split s). word w"
  using split_ws_words[of "[]" s] by (simp add: py_split_def)

lemma take_join: "\<forall>w\<in>set ws. word w \<Longrightarrow> \<exists>ws'. (\<forall>w\<in>set ws'. word w) \<and> py_rstrip (take n (join_sp ws)) = join_sp ws'"
proof (induction ws arbitrary: n rule: join_sp.induct)
  case 1 then show ?case by (intro exI[of _ "[]"]) simp
next
  case (2 w)
  show ?case
  proof (cases "take n w = []")
    case True
    then have "py_rstrip (take n (join_sp [w])) = join_sp []" by (simp del: take_eq_Nil)
    then show ?thesis by (intro exI[of _ "[]"]) simp
  next
    case False
    with 2 have "word (take n w)" by (auto simp: word_def dest: in_set_takeD)
    then show ?thesis by (intro exI[of _ "[take n w]"]) (simp add: rstrip_word)
  qed
next
  case (3 w v ws)
  show ?case
  proof (cases "n \<le> length w")
    case True
    show ?thesis
    proof (cases "take n w = []")
      case True
      with \<open>n \<le> length w\<close> have "py_rstrip (take n (join_sp (w # v # ws))) = join_sp []"
        by (simp del: take_eq_Nil)
      then show ?thesis by (intro exI[of _ "[]"]) simp
    next
      case False
      with 3 have "word (take n w)" by (auto simp: word_def dest: in_set_takeD)
      with True show ?thesis by (intro exI[of _ "[take n w]"]) (simp add: rstrip_word)
    qed
  next
    case False
    define k where "k = n - length w - 1"
    have k: "n = length w + Suc k" using False by (simp add: k_def)
    from 3 obtain ws' where ws': "\<forall>w\<in>set ws'. word w" "py_rstrip (take k (join_sp (v # ws))) = join_sp ws'"
      by (metis list.set_intros(2))
    have w: "word w" using 3 by simp
    have t: "take n (join_sp (w # v # ws)) = w @ CHR '' '' # take k (join_sp (v # ws))"
      by (simp add: k)
    have r: "py_rstrip (take n (join_sp (w # v # ws))) =
       (if join_sp ws' = [] then w else w @ CHR '' '' # join_sp ws')"
      unfolding t using rstrip_word_sp[OF w, of "take k (join_sp (v # ws))"] ws'(2)
      by (simp only:)
    show ?thesis
    proof (cases ws')
      case Nil
      then have "py_rstrip (take n (join_sp (w # v # ws))) = join_sp [w]"
        unfolding r by simp
      moreover have "\<forall>x\<in>set [w]. word x" using w by simp
      ultimately show ?thesis by blast
    next
      case (Cons a as)
      have "word a" using ws'(1) Cons by simp
      then have ne: "join_sp ws' \<noteq> []" unfolding Cons by (cases as) (auto simp: word_def)
      have "py_rstrip (take n (join_sp (w # v # ws))) = join_sp (w # ws')"
        unfolding r using ne Cons by simp
      moreover have "\<forall>x\<in>set (w # ws'). word x" using w ws'(1) by simp
      ultimately show ?thesis by blast
    qed
  qed
qed

lemma rstrip_length: "length (py_rstrip s) \<le> length s"
  by (induction s) (auto simp: Let_def)

lemma cleaned_base: "cleaned (py_strip (join_sp (py_split s)))"
proof -
  have "py_strip (join_sp (py_split s)) = join_sp (py_split s)"
    by (rule strip_join) (rule split_words)
  then show ?thesis unfolding cleaned_def using split_words[of s] by blast
qed

lemma cleaned_take: "cleaned s \<Longrightarrow> cleaned (py_rstrip (take n s))"
proof -
  assume "cleaned s"
  then obtain ws where ws: "\<forall>w\<in>set ws. word w" "s = join_sp ws"
    unfolding cleaned_def by blast
  from take_join[OF ws(1), of n] show ?thesis
    unfolding cleaned_def ws(2) by blast
qed

lemma cleaned_Nil: "cleaned []"
  unfolding cleaned_def by (rule exI[of _ "[]"]) simp

lemma clean_text_cleaned: "cleaned (clean_text L n v)"
  unfolding clean_text_def Let_def
  by (simp add: cleaned_Nil cleaned_base cleaned_take)

lemma clean_text_length: "n \<noteq> 0 \<Longrightarrow> length (clean_text L n v) \<le> n"
proof -
  assume n: "n \<noteq> 0"
  have "length (py_rstrip (take n s)) \<le> n" for s
    using rstrip_length[of "take n s"] by simp
  then show ?thesis using n unfolding clean_text_def Let_def by simp
qed

lemma clean_text_fixed:
  assumes "cleaned s" and "n = 0 \<or> length s \<le> n"
  shows "clean_text L n (PStr s) = s"
proof -
  from assms(1) obtain ws where ws: "\<forall>w\<in>set ws. word w" "s = join_sp ws"
    unfolding cleaned_def by blast
  have "py_strip (join_sp (py_split s)) = s"
    using ws by (simp add: split_join strip_join)
  then show ?thesis using assms(2) unfolding clean_text_def Let_def py_str_def by auto
qed

lemma clean_text_idem:
  assumes "n = 0 \<or> (m \<noteq> 0 \<and> m \<le> n)"
  shows "clean_text L n (PStr (clean_text L m v)) = clean_text L m v"
proof (rule clean_text_fixed)
  show "cleaned (clean_text L m v)" by (rule clean_text_cleaned)
  show "n = 0 \<or> length (clean_text L m v) \<le> n"
    using assms clean_text_length[of m L v] by auto
qed

lemma clean_optional_text_idem:
  "n \<noteq> 0 \<Longrightarrow> clean_optional_text L n (clean_optional_text L n v) = clean_optional_text L n v"
  by (simp add: clean_optional_text_def Let_def clean_text_idem) (simp add: clean_text_def)

lemma clean_int_idem:
  "clean_int L v lo hi = Inr r \<Longrightarrow> clean_int L (opt_int r) lo hi = Inr r"
  by (cases r)
     (auto simp: clean_int_def opt_int_def py_int_def split: if_splits sum.splits py_error.splits)

lemma clean_float_idem:
  "clean_float L v = Inr f \<Longrightarrow> clean_float L (PFloat f) = Inr f"
  by (auto simp: clean_float_def py_float_def float_lt_def float_gt_def
      split: if_splits sum.splits py_error.splits pyfloat.splits)

lemma choices_fixed:
  "s \<in> DOC_TYPE_CHOICES \<Longrightarrow> py_lower (clean_text L 40 (PStr s)) = s"
  "s \<in> SENIORITY_CHOICES \<Longrightarrow> py_lower (clean_text L 20 (PStr s)) = s"
  "s \<in> SKILL_LEVEL_CHOICES \<Longrightarrow> py_lower (clean_text L 20 (PStr s)) = s"
  by (auto simp: DOC_TYPE_CHOICES_def SENIORITY_CHOICES_def SKILL_LEVEL_CHOICES_def
      clean_text_def py_str_def py_split_def py_strip_def py_lstrip_def py_isspace_def
      py_lower_def lower_char_def Let_def)

subsection \<open>Lists and composite entries are fixed points\<close>

lemma clean_list_loop_second:
  assumes "\<forall>t\<in>set ts. fixed_text L n t"
    and "distinct (map py_lower ts)"
    and "py_lower ` set ts \<inter> seen = {}"
    and "length acc + length ts \<le> m"
  shows "clean_list_loop L m n (map PStr ts) acc seen = acc @ ts"
  using assms
proof (induction ts arbitrary: acc seen)
  case Nil
  then show ?case by simp
next
  case (Cons t ts)
  have t: "clean_text L n (PStr t) = t" "t \<noteq> []" "py_lower t \<notin> seen"
    using Cons.prems by (auto simp: fixed_text_def)
  show ?case
  proof (cases "length (acc @ [t]) \<ge> m")
    case True
    then have "\<not> 0 < length ts" using Cons.prems(4) by (simp del: length_greater_0_conv)
    then have "ts = []" by simp
    then show ?thesis using t True by (simp add: Let_def)
  next
    case False
    have "clean_list_loop L m n (map PStr ts) (acc @ [t]) (insert (py_lower t) seen)
            = (acc @ [t]) @ ts"
      using Cons.prems by (intro Cons.IH) auto
    then show ?thesis using t False by (simp add: Let_def)
  qed
qed

lemma clean_list_loop_first:
  assumes "n \<noteq> 0"
    and "\<forall>t\<in>set acc. fixed_text L n t"
    and "distinct (map py_lower acc)"
    and "seen = py_lower ` set acc"
    and "length acc < m"
  shows "(\<forall>t\<in>set (clean_list_loop L m n raws acc seen). fixed_text L n t)
     \<and> distinct (map py_lower (clean_list_loop L m n raws acc seen))
     \<and> length (clean_list_loop L m n raws acc seen) \<le> m"
  using assms(2-)
proof (induction raws arbitrary: acc seen)
  case Nil
  then show ?case by simp
next
  case (Cons raw raws)
  define tx where "tx = clean_text L n raw"
  show ?case
  proof (cases "tx = [] \<or> py_lower tx \<in> seen")
    case True
    then have "clean_list_loop L m n (raw # raws) acc seen
        = clean_list_loop L m n raws acc seen"
      by (auto simp: tx_def Let_def)
    then show ?thesis using Cons.IH[OF Cons.prems] by simp
  next
    case False
    have ft: "fixed_text L n tx"
      using False assms(1) by (simp add: fixed_text_def tx_def clean_text_idem)
    have inv: "\<forall>t\<in>set (acc @ [tx]). fixed_text L n t"
      "distinct (map py_lower (acc @ [tx]))"
      "insert (py_lower tx) seen = py_lower ` set (acc @ [tx])"
      using Cons.prems False ft by auto
    show ?thesis
    proof (cases "length (acc @ [tx]) \<ge> m")
      case True
      then have "clean_list_loop L m n (raw # raws) acc seen = acc @ [tx]"
        using False by (auto simp: tx_def Let_def)
      moreover have "length (acc @ [tx]) \<le> m" using Cons.prems(4) by simp
      ultimately show ?thesis using inv by simp
    next
      case F2: False
      then have "clean_list_loop L m n (raw # raws) acc seen
          = clean_list_loop L m n raws (acc @ [tx]) (insert (py_lower tx) seen)"
        using False by (auto simp: tx_def Let_def)
      moreover have "length (acc @ [tx]) < m" using F2 by simp
      ultimately show ?thesis using Cons.IH[OF inv] by simp
    qed
  qed
qed

lemma clean_list_idem:
  assumes "n \<noteq> 0" "m \<noteq> 0"
  shows "clean_list L m n (str_list (clean_list L m n v)) = clean_list L m n v"
proof (cases v)
  case (PList xs)
  define out where "out = clean_list_loop L m n xs [] {}"
  have p: "(\<forall>t\<in>set out. fixed_text L n t) \<and> distinct (map py_lower out) \<and> length out \<le> m"
    unfolding out_def using assms by (intro clean_list_loop_first) auto
  have "clean_list_loop L m n (map PStr out) [] {} = [] @ out"
    using p by (intro clean_list_loop_second) auto
  then show ?thesis by (simp add: PList clean_list_def str_list_def out_def)
qed (simp_all add: clean_list_def str_list_def)

lemma clean_list_length:
  assumes "n \<noteq> 0" "m \<noteq> 0"
  shows "length (clean_list L m n v) \<le> m"
proof (cases v)
  case (PList xs)
  have "length (clean_list_loop L m n xs [] {}) \<le> m"
    using clean_list_loop_first[of n "[]" L "{}" m xs] assms by simp
  then show ?thesis by (simp add: PList clean_list_def)
qed (simp_all add: clean_list_def)

lemma normalize_skill_idem:
  "normalize_skill L raw = Some e \<Longrightarrow> normalize_skill L e = Some e"
  by (cases raw)
     (auto simp: normalize_skill_def dict_get_def Let_def clean_text_idem choices_fixed
        SKILL_LEVEL_CHOICES_def split: if_splits)

lemma normalize_education_idem:
  "normalize_education L raw = Some e \<Longrightarrow> normalize_education L e = Some e"
  by (cases raw)
     (auto simp: normalize_education_def dict_get_def Let_def clean_text_idem
        clean_optional_text_idem split: if_splits)

lemma normalize_keyword_evidence_idem:
  "normalize_keyword_evidence L raw = Some e \<Longrightarrow> normalize_keyword_evidence L e = Some e"
  by (cases raw)
     (auto simp: normalize_keyword_evidence_def dict_get_def Let_def clean_text_idem
        split: if_splits)

lemma map_filter_fixed:
  "\<forall>e\<in>set ys. f e = Some e \<Longrightarrow> List.map_filter f ys = ys"
  by (induction ys) (auto simp: List.map_filter_simps)

lemma collect_items_idem:
  assumes "\<And>raw e. f raw = Some e \<Longrightarrow> f e = Some e" and "0 < cap"
  shows "collect_items cap f (collect_items cap f xs []) [] = collect_items cap f xs []"
proof -
  define ys where "ys = take cap (List.map_filter f xs)"
  have "\<forall>e\<in>set ys. f e = Some e"
    unfolding ys_def using in_take_map_filter assms(1) by metis
  then have "List.map_filter f ys = ys" by (rule map_filter_fixed)
  moreover have "take cap ys = ys" by (simp add: ys_def)
  ultimately show ?thesis using assms(2) by (simp add: collect_items_take ys_def)
qed

subsection \<open>Idempotence\<close>

lemma choice_member:
  "dflt \<in> S \<Longrightarrow> (let s1 = (if s0 = [] then dflt else s0) in if s1 \<notin> S then dflt else s1) \<in> S"
  by (simp add: Let_def)

lemma choices_nonempty:
  "s \<in> DOC_TYPE_CHOICES \<Longrightarrow> s \<noteq> []" "s \<in> SENIORITY_CHOICES \<Longrightarrow> s \<noteq> []"
  by (auto simp: DOC_TYPE_CHOICES_def SENIORITY_CHOICES_def)

text \<open>
  Whenever the normalizer returns a payload, normalizing that payload returns the same
  structure. Where the confidence of that structure is NaN, the two sides hold a NaN
  each, and Python's \<open>==\<close> is false between them.
\<close>

lemma normalizer_fixed_point:
  assumes "normalize_ai_payload L x = Inr y"
  shows "normalize_ai_payload L y = Inr y"
proof -
  define person_raw where "person_raw = as_dict (dict_get (as_dict x) ''person'')"
  define exp_raw where "exp_raw = as_dict (dict_get (as_dict x) ''experience'')"
  define confidence_raw where "confidence_raw = as_dict (dict_get (as_dict x) ''confidence'')"
  define dt where "dt =
    (let s1 = (if py_lower (clean_text L 40 (dict_get (as_dict x) ''doc_type'')) = [] then ''outro''
               else py_lower (clean_text L 40 (dict_get (as_dict x) ''doc_type'')))
     in if s1 \<notin> DOC_TYPE_CHOICES then ''outro'' else s1)"
  define sen where "sen =
    (let s1 = (if py_lower (clean_text L 20 (dict_get exp_raw ''seniority'')) = [] then ''unknown''
               else py_lower (clean_text L 20 (dict_get exp_raw ''seniority'')))
     in if s1 \<notin> SENIORITY_CHOICES then ''unknown'' else s1)"
  define skills where
    "skills = collect_items 30 (normalize_skill L) (as_list (dict_get (as_dict x) ''skills'')) []"
  define education where
    "education = collect_items 20 (normalize_education L) (as_list (dict_get (as_dict x) ''education'')) []"
  define kws where
    "kws = collect_items 40 (normalize_keyword_evidence L)
       (as_list (dict_get (as_dict x) ''keywords_evidence'')) []"
  define nm where "nm = clean_optional_text L 160 (dict_get person_raw ''name'')"
  define loc where "loc = clean_optional_text L 160 (dict_get person_raw ''location'')"
  define ae where "ae = clean_optional_text L 220 (dict_get person_raw ''age_evidence'')"
  define ye where "ye = clean_optional_text L 220 (dict_get exp_raw ''years_evidence'')"
  define emails where "emails = clean_list L 10 120 (dict_get person_raw ''emails'')"
  define phones where "phones = clean_list L 10 32 (dict_get person_raw ''phones'')"
  define roles where "roles = clean_list L 20 120 (dict_get exp_raw ''roles'')"
  define companies where "companies = clean_list L 20 120 (dict_get exp_raw ''companies'')"
  from assms obtain age years overall where
    a: "clean_int L (dict_get person_raw ''age_estimate_years'') 0 120 = Inr age"
    and b: "clean_int L (dict_get exp_raw ''years_estimate'') 0 60 = Inr years"
    and c: "clean_float L (dict_get confidence_raw ''overall'') = Inr overall"
    and y: "y = PDict
               [(''doc_type'', PStr dt),
                (''person'', PDict
                  [(''name'', nm), (''emails'', str_list emails), (''phones'', str_list phones),
                   (''location'', loc), (''age_estimate_years'', opt_int age),
                   (''age_evidence'', ae)]),
                (''experience'', PDict
                  [(''years_estimate'', opt_int years), (''years_evidence'', ye),
                   (''seniority'', PStr sen), (''roles'', str_list roles),
                   (''companies'', str_list companies)]),
                (''skills'', PList skills),
                (''education'', PList education),
                (''keywords_evidence'', PList kws),
                (''confidence'', PDict [(''overall'', PFloat overall)])]"
    unfolding normalize_ai_payload_def Let_def person_raw_def exp_raw_def confidence_raw_def
      dt_def sen_def skills_def education_def kws_def nm_def loc_def ae_def ye_def
      emails_def phones_def roles_def companies_def
    by (auto split: sum.splits)
  have dt: "dt \<in> DOC_TYPE_CHOICES" unfolding dt_def
    by (rule choice_member) (simp add: DOC_TYPE_CHOICES_def)
  have sen: "sen \<in> SENIORITY_CHOICES" unfolding sen_def
    by (rule choice_member) (simp add: SENIORITY_CHOICES_def)
  have dt2: "py_lower (clean_text L 40 (PStr dt)) = dt" "dt \<noteq> []"
    using dt by (simp_all add: choices_fixed choices_nonempty)
  have sen2: "py_lower (clean_text L 20 (PStr sen)) = sen" "sen \<noteq> []"
    using sen by (simp_all add: choices_fixed choices_nonempty)
  have opt: "clean_optional_text L 160 nm = nm" "clean_optional_text L 160 loc = loc"
    "clean_optional_text L 220 ae = ae" "clean_optional_text L 220 ye = ye"
    unfolding nm_def loc_def ae_def ye_def by (simp_all add: clean_optional_text_idem)
  have lists: "clean_list L 10 120 (str_list emails) = emails"
    "clean_list L 10 32 (str_list phones) = phones"
    "clean_list L 20 120 (str_list roles) = roles"
    "clean_list L 20 120 (str_list companies) = companies"
    unfolding emails_def phones_def roles_def companies_def by (simp_all add: clean_list_idem)
  have items: "collect_items 30 (normalize_skill L) skills [] = skills"
    "collect_items 20 (normalize_education L) education [] = education"
    "collect_items 40 (normalize_keyword_evidence L) kws [] = kws"
    unfolding skills_def education_def kws_def
    by (simp_all add: collect_items_idem normalize_skill_idem normalize_education_idem
        normalize_keyword_evidence_idem)
  have nums: "clean_int L (opt_int age) 0 120 = Inr age" "clean_int L (opt_int years) 0 60 = Inr years"
    "clean_float L (PFloat overall) = Inr overall"
    using a b c by (simp_all add: clean_int_idem clean_float_idem)
  show ?thesis
    unfolding y normalize_ai_payload_def
    by (simp add: Let_def dict_get_def as_dict_def as_list_def dt dt2 sen sen2 opt lists items nums)
qed

lemma normalizer_fixed_point_example:
  "normalize_ai_payload ascii_lib payload_two_skills =
     Inr (default_payload
       (PList [PDict [(''name'', PStr ''Py''), (''level'', PStr ''unknown''),
                      (''evidence'', PStr ''used py'')]])
       (FFin 0))
   \<and> normalize_ai_payload ascii_lib (default_payload
       (PList [PDict [(''name'', PStr ''Py''), (''level'', PStr ''unknown''),
                      (''evidence'', PStr ''used py'')]])
       (FFin 0)) =
     Inr (default_payload
       (PList [PDict [(''name'', PStr ''Py''), (''level'', PStr ''unknown''),
                      (''evidence'', PStr ''used py'')]])
       (FFin 0))"
  using normalizer_fixed_point [OF normalize_two_skills, of ascii_lib] normalize_two_skills
  by blast




subsection \<open>Bounds of the output\<close>

text \<open>
  Whenever the normalizer returns, the two integer estimates are null or within their
  bounds, every list is within its cap, and the confidence is within \<open>[0, 1]\<close> or NaN.
\<close>

lemma clean_int_bounds:
  "clean_int L v lo hi = Inr (Some i) \<Longrightarrow> lo \<le> i \<and> i \<le> hi"
  by (auto simp: clean_int_def split: if_splits sum.splits py_error.splits)

lemma clean_float_range:
  "clean_float L v = Inr f \<Longrightarrow> f = FNaN \<or> in_unit_interval f"
  by (auto simp: clean_float_def float_lt_def float_gt_def in_unit_interval_def
      split: if_splits sum.splits py_error.splits pyfloat.splits)

lemma collect_items_length: "0 < cap \<Longrightarrow> length (collect_items cap f xs []) \<le> cap"
  by (simp add: collect_items_take)

lemma opt_int_bounds:
  "clean_int L v lo hi = Inr r \<Longrightarrow>
   opt_int r = PNone \<or> (\<exists>i. opt_int r = PInt i \<and> lo \<le> i \<and> i \<le> hi)"
  using clean_int_bounds[of L v lo hi] by (cases r) (auto simp: opt_int_def)

lemma normalizer_bounds_apart_from_nan:
  assumes "normalize_ai_payload L x = Inr y"
  shows "(field (field y ''person'') ''age_estimate_years'' = PNone
          \<or> (\<exists>i. field (field y ''person'') ''age_estimate_years'' = PInt i \<and> 0 \<le> i \<and> i \<le> 120))
     \<and> (field (field y ''experience'') ''years_estimate'' = PNone
          \<or> (\<exists>i. field (field y ''experience'') ''years_estimate'' = PInt i \<and> 0 \<le> i \<and> i \<le> 60))
     \<and> length (as_list (field (field y ''person'') ''emails'')) \<le> 10
     \<and> length (as_list (field (field y ''person'') ''phones'')) \<le> 10
     \<and> length (as_list (field (field y ''experience'') ''roles'')) \<le> 20
     \<and> length (as_list (field (field y ''experience'') ''companies'')) \<le> 20
     \<and> length (as_list (field y ''skills'')) \<le> 30
     \<and> length (as_list (field y ''education'')) \<le> 20
     \<and> length (as_list (field y ''keywords_evidence'')) \<le> 40
     \<and> (\<exists>f. field (field y ''confidence'') ''overall'' = PFloat f
            \<and> (f = FNaN \<or> in_unit_interval f))"
  using assms
  unfolding normalize_ai_payload_def Let_def
  by (auto split: sum.splits
      simp: field_def dict_get_def as_dict_def as_list_def str_list_def clean_list_length
        collect_items_length
      dest: opt_int_bounds clean_float_range)

section \<open>The intent resolver (intent.py)\<close>

subsection \<open>Exact lookup\<close>

lemma map_of_foldl_update:
  "map_of (foldl (\<lambda>d (candidate, ks). AList.update candidate ks d) d0 xs)
     = map_of d0 ++ map_of (rev xs)"
proof (induction xs arbitrary: d0)
  case Nil
  then show ?case by simp
next
  case (Cons x xs)
  obtain c ks where x: "x = (c, ks)" by (cases x)
  have "map_of (AList.update c ks d0) ++ map_of (rev xs)
          = map_of d0 ++ (map_of [(c, ks)] ++ map_of (rev xs))"
    by (simp add: update_conv' map_add_assoc [symmetric] map_add_upd_left)
  then show ?case using Cons.IH[of "AList.update c ks d0"] by (simp add: x)
qed

lemma map_of_find:
  "map_of xs k = map_option snd (find (\<lambda>(c, ks). c = k) xs)"
  by (induction xs) auto

lemma exact_lookup_last:
  "map_of (exact_lookup candidates) normalized = map_option snd (last_match normalized candidates)"
  by (simp add: exact_lookup_def map_of_foldl_update last_match_def first_match_def map_of_find)

lemma last_match_None: "last_match n cands = None \<longleftrightarrow> first_match n cands = None"
  by (auto simp: last_match_def first_match_def find_None_iff)

text \<open>
  Claim C1, amended: when several candidates normalize to the label, the one generated
  last (synonyms after labels after keys, a later builtin field after an earlier one)
  determines the returned \<open>builtin_key\<close> and \<open>match_strategy\<close>, with confidence 1.
\<close>

theorem exact_match_last_candidate_wins:
  assumes "normalize_label L label \<noteq> []"
    and "last_match (normalize_label L label) (build_builtin_candidates L C builtin_fields)
           = Some (candidate, key, strategy)"
  shows "kind (resolve_intent L C label builtin_fields allow_llm) = ''builtin''
     \<and> builtin_key (resolve_intent L C label builtin_fields allow_llm) = key
     \<and> match_strategy (resolve_intent L C label builtin_fields allow_llm) = strategy
     \<and> confidence (resolve_intent L C label builtin_fields allow_llm) = 1"
  using assms by (simp add: resolve_intent_def Let_def exact_lookup_last)

lemma normalize_label_ascii_b: "normalize_label ascii_lib ''b'' = ''b''"
  "normalize_label ascii_lib ''a'' = ''a''" "normalize_label ascii_lib ''c'' = ''c''"
  by (simp_all add: normalize_label_def ascii_lib_def py_strip_def py_lstrip_def py_isspace_def
      py_lower_def lower_char_def Let_def)

lemma synonyms_0006:
  "map (\<lambda>(synonym, key). (normalize_label ascii_lib synonym, key, ''synonym'')) (SYNONYM_MAP catalog_0006)
   = map (\<lambda>(synonym, key). (synonym, key, ''synonym'')) (SYNONYM_MAP catalog_0006)"
  by (simp add: catalog_0006_def normalize_label_def ascii_lib_def py_strip_def py_lstrip_def
      py_isspace_def py_lower_def lower_char_def Let_def)

lemma candidates_ab:
  "build_builtin_candidates ascii_lib catalog_0006 [(''a'', ''b''), (''b'', ''c'')]
   = [(''a'', ''a'', ''exact''), (''b'', ''a'', ''label''), (''b'', ''b'', ''exact''),
      (''c'', ''b'', ''label'')]
     @ map (\<lambda>(synonym, key). (synonym, key, ''synonym'')) (SYNONYM_MAP catalog_0006)"
  by (simp add: build_builtin_candidates_def normalize_label_ascii_b synonyms_0006 Let_def)

lemma first_match_ab:
  "first_match ''b'' (build_builtin_candidates ascii_lib catalog_0006 [(''a'', ''b''), (''b'', ''c'')])
     = Some (''b'', ''a'', ''label'')"
  by (simp add: candidates_ab first_match_def)

lemma last_match_ab:
  "last_match ''b'' (build_builtin_candidates ascii_lib catalog_0006 [(''a'', ''b''), (''b'', ''c'')])
     = Some (''b'', ''b'', ''exact'')"
  unfolding candidates_ab by (simp add: last_match_def first_match_def catalog_0006_def)

text \<open>
  Claim C1, as stated: the candidate generated first determines the returned key and
  strategy. With the builtin fields \<open>("a", "b")\<close> and \<open>("b", "c")\<close> the label \<open>"b"\<close>
  meets first the label candidate of key \<open>a\<close> and then the key candidate of key \<open>b\<close>;
  the dictionary comprehension keeps the later one, and the resolver returns key \<open>b\<close>
  with strategy \<open>exact\<close>.
\<close>

theorem exact_match_first_candidate_counterexample:
  "first_match (normalize_label ascii_lib ''b'')
       (build_builtin_candidates ascii_lib catalog_0006 [(''a'', ''b''), (''b'', ''c'')])
     = Some (''b'', ''a'', ''label'')
   \<and> builtin_key (resolve_intent ascii_lib catalog_0006 ''b'' [(''a'', ''b''), (''b'', ''c'')] False) = ''b''
   \<and> match_strategy (resolve_intent ascii_lib catalog_0006 ''b'' [(''a'', ''b''), (''b'', ''c'')] False)
       = ''exact''"
  by (simp add: normalize_label_ascii_b first_match_ab resolve_intent_def Let_def
      exact_lookup_last last_match_ab)

theorem exact_match_last_candidate_wins_witness:
  "normalize_label ascii_lib ''b'' \<noteq> []
   \<and> last_match (normalize_label ascii_lib ''b'')
       (build_builtin_candidates ascii_lib catalog_0006 [(''a'', ''b''), (''b'', ''c'')])
     = Some (''b'', ''b'', ''exact'')
   \<and> builtin_key (resolve_intent ascii_lib catalog_0006 ''b'' [(''a'', ''b''), (''b'', ''c'')] True) = ''b''
   \<and> match_strategy (resolve_intent ascii_lib catalog_0006 ''b'' [(''a'', ''b''), (''b'', ''c'')] True)
       = ''exact''"
  using exact_match_last_candidate_wins [of ascii_lib "''b''" catalog_0006
      "[(''a'', ''b''), (''b'', ''c'')]" "''b''" "''b''" "''exact''" True]
    last_match_ab
  by (simp add: normalize_label_ascii_b)

subsection \<open>Fuzzy fallback\<close>

lemma best_ratio_Cons:
  "best_ratio L n (x # rest) =
     (if rest = [] then seq_ratio L n (fst x)
      else max (seq_ratio L n (fst x)) (best_ratio L n rest))"
  by (cases x) (auto simp: best_ratio_def)

lemma first_best_Cons:
  "first_best L n (x # rest) =
     (if seq_ratio L n (fst x) = best_ratio L n (x # rest) then Some x
      else find (\<lambda>(candidate, ks). seq_ratio L n candidate = best_ratio L n (x # rest)) rest)"
  by (cases x) (simp add: first_best_def)

lemma first_best_exists:
  "cands \<noteq> [] \<Longrightarrow> \<exists>c k s. first_best L n cands = Some (c, k, s)"
proof -
  assume ne: "cands \<noteq> []"
  let ?f = "\<lambda>(candidate, ks). seq_ratio L n candidate"
  let ?S = "set (map ?f cands)"
  have "Max ?S \<in> ?S" using ne by (intro Max_in) auto
  then obtain x where x: "x \<in> set cands" "?f x = Max ?S"
    by auto
  obtain c ks where xc: "x = (c, ks)" by (cases x)
  have "seq_ratio L n c = best_ratio L n cands" using x(2) by (simp add: xc best_ratio_def)
  then have "\<exists>y\<in>set cands. (\<lambda>(candidate, ks). seq_ratio L n candidate = best_ratio L n cands) y"
    using x(1) xc by (intro bexI[of _ x]) auto
  then have "find (\<lambda>(candidate, ks). seq_ratio L n candidate = best_ratio L n cands) cands \<noteq> None"
    unfolding find_None_iff by blast
  then obtain y where "first_best L n cands = Some y" unfolding first_best_def by blast
  then show ?thesis by (cases y) auto
qed

lemma fuzzy_loop_result:
  "fuzzy_loop L n cands (bk, bs, bst) =
     (if cands = [] \<or> best_ratio L n cands \<le> bs then (bk, bs, bst)
      else case first_best L n cands of
             Some (c, k, s) \<Rightarrow> (k, best_ratio L n cands, s)
           | None \<Rightarrow> (bk, bs, bst))"
proof (induction cands arbitrary: bk bs bst)
  case Nil
  then show ?case by simp
next
  case (Cons x rest)
  obtain c k s where x: "x = (c, k, s)" by (cases x)
  define sc where "sc = seq_ratio L n c"
  have br: "best_ratio L n (x # rest) = (if rest = [] then sc else max sc (best_ratio L n rest))"
    by (simp add: best_ratio_Cons x sc_def)
  have fb: "first_best L n (x # rest) =
     (if sc = best_ratio L n (x # rest) then Some x
      else find (\<lambda>(candidate, ks). seq_ratio L n candidate = best_ratio L n (x # rest)) rest)"
    by (simp add: first_best_Cons x sc_def)
  show ?case
  proof (cases "sc > bs")
    case True
    have step: "fuzzy_loop L n (x # rest) (bk, bs, bst) = fuzzy_loop L n rest (k, sc, s)"
      using True by (simp add: x sc_def)
    show ?thesis
    proof (cases "rest = [] \<or> best_ratio L n rest \<le> sc")
      case True
      have l: "fuzzy_loop L n (x # rest) (bk, bs, bst) = (k, sc, s)"
        using True by (simp add: step Cons.IH)
      have b: "best_ratio L n (x # rest) = sc" using True by (auto simp: br)
      have "first_best L n (x # rest) = Some x" unfolding fb b by simp
      then have f: "first_best L n (x # rest) = Some (c, k, s)" unfolding x .
      have nb: "\<not> best_ratio L n (x # rest) \<le> bs" using b \<open>sc > bs\<close> by simp
      show ?thesis by (simp add: l f nb) (simp add: b)
    next
      case False
      then have b: "best_ratio L n (x # rest) = best_ratio L n rest" "sc \<noteq> best_ratio L n rest"
        "\<not> best_ratio L n rest \<le> bs" "rest \<noteq> []" "\<not> best_ratio L n rest \<le> sc"
        using \<open>sc > bs\<close> by (auto simp: br)
      have f: "first_best L n (x # rest) = first_best L n rest"
        using b by (simp add: fb) (simp add: first_best_def)
      have l: "fuzzy_loop L n (x # rest) (bk, bs, bst) =
          (case first_best L n rest of Some (c, k, s) \<Rightarrow> (k, best_ratio L n rest, s)
           | None \<Rightarrow> (k, sc, s))"
        using b by (simp add: step Cons.IH)
      obtain c' k' s' where e: "first_best L n rest = Some (c', k', s')"
        using first_best_exists[OF b(4)] by blast
      show ?thesis using b(3) by (simp add: l f b(1) e)
    qed
  next
    case False
    have step: "fuzzy_loop L n (x # rest) (bk, bs, bst) = fuzzy_loop L n rest (bk, bs, bst)"
      using False by (simp add: x sc_def)
    show ?thesis
    proof (cases "rest = [] \<or> best_ratio L n rest \<le> bs")
      case True
      then have b: "best_ratio L n (x # rest) \<le> bs" using False by (auto simp: br)
      have l: "fuzzy_loop L n (x # rest) (bk, bs, bst) = (bk, bs, bst)"
        using True by (simp add: step Cons.IH)
      show ?thesis by (simp add: l b)
    next
      case False
      then have b: "best_ratio L n (x # rest) = best_ratio L n rest" "sc \<noteq> best_ratio L n rest"
        "\<not> best_ratio L n rest \<le> bs" "rest \<noteq> []"
        using \<open>\<not> sc > bs\<close> by (auto simp: br)
      have f: "first_best L n (x # rest) = first_best L n rest"
        using b by (simp add: fb) (simp add: first_best_def)
      have l: "fuzzy_loop L n (x # rest) (bk, bs, bst) =
          (case first_best L n rest of Some (c, k, s) \<Rightarrow> (k, best_ratio L n rest, s)
           | None \<Rightarrow> (bk, bs, bst))"
        using b by (simp add: step Cons.IH)
      obtain c' k' s' where e: "first_best L n rest = Some (c', k', s')"
        using first_best_exists[OF b(4)] by blast
      show ?thesis using b(3) by (simp add: l f b(1) e)
    qed
  qed
qed

text \<open>
  The result of the fuzzy fallback in terms of the best ratio and of the first candidate
  that reaches it.
\<close>

lemma fuzzy_fallback_result:
  assumes "normalize_label L label \<noteq> []"
    and "first_match (normalize_label L label) (build_builtin_candidates L C builtin_fields) = None"
  shows "(build_builtin_candidates L C builtin_fields \<noteq> []
          \<and> best_ratio L (normalize_label L label) (build_builtin_candidates L C builtin_fields)
               \<ge> FUZZY_THRESHOLD
          \<and> first_best L (normalize_label L label) (build_builtin_candidates L C builtin_fields)
               = Some (candidate, key, strategy)
          \<and> key \<noteq> []
        \<longrightarrow> kind (resolve_intent L C label builtin_fields allow_llm) = ''builtin''
          \<and> builtin_key (resolve_intent L C label builtin_fields allow_llm) = key
          \<and> match_strategy (resolve_intent L C label builtin_fields allow_llm) = ''fuzzy''
          \<and> confidence (resolve_intent L C label builtin_fields allow_llm)
               = best_ratio L (normalize_label L label) (build_builtin_candidates L C builtin_fields))
     \<and> (build_builtin_candidates L C builtin_fields = []
          \<or> best_ratio L (normalize_label L label) (build_builtin_candidates L C builtin_fields)
               < FUZZY_THRESHOLD
        \<longrightarrow> kind (resolve_intent L C label builtin_fields allow_llm) = ''custom''
          \<and> match_strategy (resolve_intent L C label builtin_fields allow_llm) = ''custom''
          \<and> confidence (resolve_intent L C label builtin_fields allow_llm) = 0)"
proof -
  define n where "n = normalize_label L label"
  define cands where "cands = build_builtin_candidates L C builtin_fields"
  have none: "map_of (exact_lookup cands) n = None"
    using assms(2) by (simp add: exact_lookup_last last_match_None n_def cands_def)
  have r: "resolve_intent L C label builtin_fields allow_llm =
      (case fuzzy_loop L n cands ([], 0, []) of
         (best_key, best_score, best_strategy) \<Rightarrow>
           if best_key \<noteq> [] \<and> best_score \<ge> FUZZY_THRESHOLD
           then \<lparr>kind = ''builtin'', builtin_key = best_key,
                 inferred_type = infer_type C n best_key,
                 anchors = build_anchors L C label best_key builtin_fields,
                 match_strategy = ''fuzzy'', confidence = best_score\<rparr>
           else \<lparr>kind = ''custom'', builtin_key = [],
                 inferred_type = infer_type C n [],
                 anchors = (if py_strip label \<noteq> [] then [py_strip label] else []),
                 match_strategy = ''custom'', confidence = 0\<rparr>)"
    using assms(1) none
    by (simp add: resolve_intent_def Let_def n_def [symmetric] cands_def [symmetric]
        resolve_intent_with_llm_def split: prod.splits)
  have pos: "0 < FUZZY_THRESHOLD" by (simp add: FUZZY_THRESHOLD_def)
  have hi: "kind (resolve_intent L C label builtin_fields allow_llm) = ''builtin''
          \<and> builtin_key (resolve_intent L C label builtin_fields allow_llm) = key
          \<and> match_strategy (resolve_intent L C label builtin_fields allow_llm) = ''fuzzy''
          \<and> confidence (resolve_intent L C label builtin_fields allow_llm) = best_ratio L n cands"
    if "cands \<noteq> []" "best_ratio L n cands \<ge> FUZZY_THRESHOLD"
      "first_best L n cands = Some (candidate, key, strategy)" "key \<noteq> []"
  proof -
    have "fuzzy_loop L n cands ([], 0, []) = (key, best_ratio L n cands, strategy)"
      using that pos by (simp add: fuzzy_loop_result)
    then show ?thesis using that by (simp add: r)
  qed
  have lo: "kind (resolve_intent L C label builtin_fields allow_llm) = ''custom''
          \<and> match_strategy (resolve_intent L C label builtin_fields allow_llm) = ''custom''
          \<and> confidence (resolve_intent L C label builtin_fields allow_llm) = 0"
    if "cands = [] \<or> best_ratio L n cands < FUZZY_THRESHOLD"
  proof (cases "cands = [] \<or> best_ratio L n cands \<le> 0")
    case True
    then have "fuzzy_loop L n cands ([], 0, []) = ([], 0, [])"
      by (simp add: fuzzy_loop_result)
    then show ?thesis by (simp add: r)
  next
    case False
    then obtain c k s where "first_best L n cands = Some (c, k, s)"
      using first_best_exists[of cands L n] by auto
    then have "fuzzy_loop L n cands ([], 0, []) = (k, best_ratio L n cands, s)"
      using False by (simp add: fuzzy_loop_result)
    then show ?thesis using that False by (simp add: r)
  qed
  show ?thesis using hi lo unfolding n_def cands_def by blast
qed

lemma common_prefix_len_disjoint: "set xs \<inter> set ys = {} \<Longrightarrow> common_prefix_len xs ys = 0"
  by (cases xs; cases ys) auto

lemma foldl_longest_disjoint:
  assumes "set a \<inter> set b = {}"
  shows "foldl (\<lambda>(besti, bestj, bestsize) (i, j).
              let k = common_prefix_len (drop i a) (drop j b)
              in if k > bestsize then (i, j, k) else (besti, bestj, bestsize))
       (0, 0, 0) ps = (0, 0, 0)"
proof (induction ps)
  case Nil
  then show ?case by simp
next
  case (Cons p ps)
  obtain i j where p: "p = (i, j)" by (cases p)
  have "set (drop i a) \<inter> set (drop j b) = {}"
    using assms by (meson disjoint_iff in_set_dropD)
  then have "common_prefix_len (drop i a) (drop j b) = 0"
    by (rule common_prefix_len_disjoint)
  then show ?case using Cons by (simp add: p)
qed

lemma matching_size_disjoint: "set a \<inter> set b = {} \<Longrightarrow> matching_size a b = 0"
  by (subst matching_size.simps)
     (simp add: find_longest_match_def foldl_longest_disjoint)

lemma sm_ratio_disjoint: "set a \<inter> set b = {} \<Longrightarrow> a \<noteq> [] \<Longrightarrow> sm_ratio a b = 0"
  by (simp add: sm_ratio_def matching_size_disjoint)

lemma sm_ratio_examples:
  "sm_ratio ''zzzzzzzz'' ''zzzzzzz'' = 14 / 15"
  "sm_ratio ''zzzzzzzz'' ''zeta'' = 1 / 6"
  by code_simp+

lemma normalize_label_z:
  "normalize_label ascii_lib ''zzzzzzzz'' = ''zzzzzzzz''"
  "normalize_label ascii_lib ''zzzzzzz'' = ''zzzzzzz''"
  "normalize_label ascii_lib ''zeta'' = ''zeta''"
  "normalize_label ascii_lib [] = []"
  by (simp_all add: normalize_label_def ascii_lib_def py_strip_def py_lstrip_def py_isspace_def
      py_lower_def lower_char_def Let_def)

lemma synonym_ratios_z:
  "map (\<lambda>(synonym, key). sm_ratio ''zzzzzzzz'' synonym) (SYNONYM_MAP catalog_0006)
     = replicate 22 0"
  by (simp add: catalog_0006_def sm_ratio_disjoint eval_nat_numeral)

lemma seq_ratio_ascii: "seq_ratio ascii_lib = sm_ratio"
  by (simp add: ascii_lib_def)

lemma candidates_z:
  "build_builtin_candidates ascii_lib catalog_0006 [([], ''zzzzzzz'')]
   = (''zzzzzzz'', [], ''label'')
     # map (\<lambda>(synonym, key). (synonym, key, ''synonym'')) (SYNONYM_MAP catalog_0006)"
  by (simp add: build_builtin_candidates_def normalize_label_z synonyms_0006 Let_def)

lemma candidates_zeta:
  "build_builtin_candidates ascii_lib catalog_0006 [(''zeta'', ''zzzzzzz'')]
   = (''zeta'', ''zeta'', ''exact'') # (''zzzzzzz'', ''zeta'', ''label'')
     # map (\<lambda>(synonym, key). (synonym, key, ''synonym'')) (SYNONYM_MAP catalog_0006)"
  by (simp add: build_builtin_candidates_def normalize_label_z synonyms_0006 Let_def)

lemma synonym_scores_z:
  "map (\<lambda>(candidate, ks). seq_ratio ascii_lib ''zzzzzzzz'' candidate)
     (map (\<lambda>(synonym, key). (synonym, key, ''synonym'')) (SYNONYM_MAP catalog_0006))
   = replicate 22 0"
  using synonym_ratios_z by (simp add: ascii_lib_def comp_def split_def)

lemma fuzzy_loop_zero:
  "\<forall>x\<in>set cands. seq_ratio L n (fst x) = 0 \<Longrightarrow> 0 \<le> bs \<Longrightarrow>
   fuzzy_loop L n cands (bk, bs, bst) = (bk, bs, bst)"
  by (induction cands) (auto simp: Let_def)

lemma synonyms_zero:
  "\<forall>x\<in>set (map (\<lambda>(synonym, key). (synonym, key, ''synonym'')) (SYNONYM_MAP catalog_0006)).
     seq_ratio ascii_lib ''zzzzzzzz'' (fst x) = 0"
  by (simp add: catalog_0006_def ascii_lib_def sm_ratio_disjoint)

lemma synonyms_no_z:
  "first_match ''zzzzzzzz''
     (map (\<lambda>(synonym, key). (synonym, key, ''synonym'')) (SYNONYM_MAP catalog_0006)) = None"
  by (simp add: first_match_def catalog_0006_def)

lemma best_ratio_z:
  "best_ratio ascii_lib ''zzzzzzzz''
       (build_builtin_candidates ascii_lib catalog_0006 [([], ''zzzzzzz'')]) = 14 / 15"
  unfolding candidates_z best_ratio_def list.map synonym_scores_z
  by (simp add: ascii_lib_def sm_ratio_examples eval_nat_numeral)

lemma best_ratio_zeta:
  "best_ratio ascii_lib ''zzzzzzzz''
       (build_builtin_candidates ascii_lib catalog_0006 [(''zeta'', ''zzzzzzz'')]) = 14 / 15"
  unfolding candidates_zeta best_ratio_def list.map synonym_scores_z
  by (simp add: ascii_lib_def sm_ratio_examples eval_nat_numeral)

lemma fuzzy_loop_z:
  "fuzzy_loop ascii_lib ''zzzzzzzz''
     (build_builtin_candidates ascii_lib catalog_0006 [([], ''zzzzzzz'')]) ([], 0, [])
   = ([], 14 / 15, ''label'')"
  unfolding candidates_z
  by (simp add: seq_ratio_ascii sm_ratio_examples fuzzy_loop_zero [OF synonyms_zero])

text \<open>
  The registry of the specification gives every builtin field a key. On a row whose key
  is the empty string the guard \<open>if best_key and ...\<close> sends the label to the custom
  branch, whatever the ratio.
\<close>

lemma fuzzy_guard_empty_key:
  "first_match (normalize_label ascii_lib ''zzzzzzzz'')
       (build_builtin_candidates ascii_lib catalog_0006 [([], ''zzzzzzz'')]) = None
   \<and> best_ratio ascii_lib (normalize_label ascii_lib ''zzzzzzzz'')
       (build_builtin_candidates ascii_lib catalog_0006 [([], ''zzzzzzz'')]) = 14 / 15
   \<and> FUZZY_THRESHOLD \<le> 14 / 15
   \<and> kind (resolve_intent ascii_lib catalog_0006 ''zzzzzzzz'' [([], ''zzzzzzz'')] False) = ''custom''
   \<and> confidence (resolve_intent ascii_lib catalog_0006 ''zzzzzzzz'' [([], ''zzzzzzz'')] False) = 0"
proof -
  have fm: "first_match ''zzzzzzzz''
       (build_builtin_candidates ascii_lib catalog_0006 [([], ''zzzzzzz'')]) = None"
    using synonyms_no_z unfolding candidates_z by (simp add: first_match_def)
  then have "map_of (exact_lookup (build_builtin_candidates ascii_lib catalog_0006 [([], ''zzzzzzz'')]))
      ''zzzzzzzz'' = None"
    by (simp add: exact_lookup_last last_match_None)
  then show ?thesis
    by (simp add: normalize_label_z fm best_ratio_z FUZZY_THRESHOLD_def resolve_intent_def
        Let_def fuzzy_loop_z resolve_intent_with_llm_def)
qed

lemma candidates_keys_nonempty:
  assumes "\<forall>(key, label)\<in>set builtin_fields. key \<noteq> []"
    and "\<forall>(synonym, key)\<in>set (SYNONYM_MAP C). key \<noteq> []"
  shows "\<forall>(candidate, key, strategy)\<in>set (build_builtin_candidates L C builtin_fields). key \<noteq> []"
  using assms by (auto simp: build_builtin_candidates_def Let_def split: if_splits)

lemma first_best_member:
  "first_best L n cands = Some x \<Longrightarrow> x \<in> set cands"
proof -
  assume "first_best L n cands = Some x"
  then obtain i where "i < length cands" "cands ! i = x"
    unfolding first_best_def find_Some_iff by blast
  then show ?thesis using nth_mem by blast
qed

text \<open>
  Claim C6. With every builtin key of the registry and of the synonym table non-empty:
  when no candidate equals the normalized label and the best similarity ratio over the
  candidates is at least 0.84, the resolver returns a builtin intent with strategy
  \<open>fuzzy\<close>, the ratio as confidence and the key of the first candidate reaching the
  ratio; when the best ratio is below 0.84 and external resolution is off, it returns a
  custom intent with confidence 0.
\<close>

theorem fuzzy_threshold_inclusive:
  assumes "normalize_label L label \<noteq> []"
    and "first_match (normalize_label L label) (build_builtin_candidates L C builtin_fields) = None"
    and "\<forall>(key, label)\<in>set builtin_fields. key \<noteq> []"
    and "\<forall>(synonym, key)\<in>set (SYNONYM_MAP C). key \<noteq> []"
  shows "(build_builtin_candidates L C builtin_fields \<noteq> []
          \<and> best_ratio L (normalize_label L label) (build_builtin_candidates L C builtin_fields)
               \<ge> FUZZY_THRESHOLD
        \<longrightarrow> kind (resolve_intent L C label builtin_fields allow_llm) = ''builtin''
          \<and> match_strategy (resolve_intent L C label builtin_fields allow_llm) = ''fuzzy''
          \<and> confidence (resolve_intent L C label builtin_fields allow_llm)
               = best_ratio L (normalize_label L label) (build_builtin_candidates L C builtin_fields)
          \<and> (\<exists>candidate strategy.
                first_best L (normalize_label L label) (build_builtin_candidates L C builtin_fields)
                  = Some (candidate,
                      builtin_key (resolve_intent L C label builtin_fields allow_llm), strategy)))
     \<and> (best_ratio L (normalize_label L label) (build_builtin_candidates L C builtin_fields)
               < FUZZY_THRESHOLD
        \<longrightarrow> kind (resolve_intent L C label builtin_fields False) = ''custom''
          \<and> confidence (resolve_intent L C label builtin_fields False) = 0)"
proof -
  define n where "n = normalize_label L label"
  define cands where "cands = build_builtin_candidates L C builtin_fields"
  have keys: "\<forall>(candidate, key, strategy)\<in>set cands. key \<noteq> []"
    unfolding cands_def using assms(3,4) by (rule candidates_keys_nonempty)
  have hi: "kind (resolve_intent L C label builtin_fields allow_llm) = ''builtin''
          \<and> match_strategy (resolve_intent L C label builtin_fields allow_llm) = ''fuzzy''
          \<and> confidence (resolve_intent L C label builtin_fields allow_llm) = best_ratio L n cands
          \<and> (\<exists>candidate strategy. first_best L n cands
                = Some (candidate,
                    builtin_key (resolve_intent L C label builtin_fields allow_llm), strategy))"
    if ne: "cands \<noteq> []" and ge: "best_ratio L n cands \<ge> FUZZY_THRESHOLD"
  proof -
    obtain c k s where fb: "first_best L n cands = Some (c, k, s)"
      using first_best_exists[OF ne] by blast
    then have "(c, k, s) \<in> set cands" by (rule first_best_member)
    then have k: "k \<noteq> []" using keys by auto
    have "kind (resolve_intent L C label builtin_fields allow_llm) = ''builtin''
          \<and> builtin_key (resolve_intent L C label builtin_fields allow_llm) = k
          \<and> match_strategy (resolve_intent L C label builtin_fields allow_llm) = ''fuzzy''
          \<and> confidence (resolve_intent L C label builtin_fields allow_llm) = best_ratio L n cands"
      using fuzzy_fallback_result [OF assms(1,2), of c k s allow_llm] ne ge fb k
      unfolding n_def cands_def by blast
    then show ?thesis using fb by auto
  qed
  have lo: "kind (resolve_intent L C label builtin_fields False) = ''custom''
          \<and> confidence (resolve_intent L C label builtin_fields False) = 0"
    if "best_ratio L n cands < FUZZY_THRESHOLD"
    using fuzzy_fallback_result [OF assms(1,2), of undefined undefined undefined False] that
    unfolding n_def cands_def by blast
  show ?thesis using hi lo unfolding n_def cands_def by blast
qed

lemma zeta_facts:
  "normalize_label ascii_lib ''zzzzzzzz'' \<noteq> []"
  "first_match (normalize_label ascii_lib ''zzzzzzzz'')
       (build_builtin_candidates ascii_lib catalog_0006 [(''zeta'', ''zzzzzzz'')]) = None"
  "first_best ascii_lib (normalize_label ascii_lib ''zzzzzzzz'')
       (build_builtin_candidates ascii_lib catalog_0006 [(''zeta'', ''zzzzzzz'')])
     = Some (''zzzzzzz'', ''zeta'', ''label'')"
proof -
  show "normalize_label ascii_lib ''zzzzzzzz'' \<noteq> []" by (simp add: normalize_label_z)
  show "first_match (normalize_label ascii_lib ''zzzzzzzz'')
       (build_builtin_candidates ascii_lib catalog_0006 [(''zeta'', ''zzzzzzz'')]) = None"
    using synonyms_no_z unfolding candidates_zeta normalize_label_z by (simp add: first_match_def)
  show "first_best ascii_lib (normalize_label ascii_lib ''zzzzzzzz'')
       (build_builtin_candidates ascii_lib catalog_0006 [(''zeta'', ''zzzzzzz'')])
     = Some (''zzzzzzz'', ''zeta'', ''label'')"
    unfolding first_best_def normalize_label_z best_ratio_zeta unfolding candidates_zeta
    by (simp add: ascii_lib_def sm_ratio_examples)
qed

lemma zeta_keys:
  "\<forall>(key, label)\<in>set [(''zeta'', ''zzzzzzz'')]. key \<noteq> []"
  "\<forall>(synonym, key)\<in>set (SYNONYM_MAP catalog_0006). key \<noteq> []"
  by (simp_all add: catalog_0006_def)

theorem fuzzy_threshold_inclusive_witness:
  "normalize_label ascii_lib ''zzzzzzzz'' \<noteq> []
   \<and> first_match (normalize_label ascii_lib ''zzzzzzzz'')
       (build_builtin_candidates ascii_lib catalog_0006 [(''zeta'', ''zzzzzzz'')]) = None
   \<and> build_builtin_candidates ascii_lib catalog_0006 [(''zeta'', ''zzzzzzz'')] \<noteq> []
   \<and> FUZZY_THRESHOLD \<le> best_ratio ascii_lib (normalize_label ascii_lib ''zzzzzzzz'')
       (build_builtin_candidates ascii_lib catalog_0006 [(''zeta'', ''zzzzzzz'')])
   \<and> kind (resolve_intent ascii_lib catalog_0006 ''zzzzzzzz'' [(''zeta'', ''zzzzzzz'')] False) = ''builtin''
   \<and> builtin_key (resolve_intent ascii_lib catalog_0006 ''zzzzzzzz'' [(''zeta'', ''zzzzzzz'')] False) = ''zeta''
   \<and> match_strategy (resolve_intent ascii_lib catalog_0006 ''zzzzzzzz'' [(''zeta'', ''zzzzzzz'')] False) = ''fuzzy''
   \<and> confidence (resolve_intent ascii_lib catalog_0006 ''zzzzzzzz'' [(''zeta'', ''zzzzzzz'')] False) = 14 / 15"
proof -
  have ne: "build_builtin_candidates ascii_lib catalog_0006 [(''zeta'', ''zzzzzzz'')] \<noteq> []"
    by (simp add: candidates_zeta)
  have ge: "FUZZY_THRESHOLD \<le> best_ratio ascii_lib (normalize_label ascii_lib ''zzzzzzzz'')
       (build_builtin_candidates ascii_lib catalog_0006 [(''zeta'', ''zzzzzzz'')])"
    by (simp add: normalize_label_z best_ratio_zeta FUZZY_THRESHOLD_def)
  show ?thesis
    using fuzzy_threshold_inclusive [OF zeta_facts(1) zeta_facts(2) zeta_keys, of False]
      ne ge zeta_facts
    by (auto simp: normalize_label_z best_ratio_zeta)
qed

end
